theory Spec2Isabelle
  imports Complex_Main "HOL-Library.Sublist"
begin

section \<open>The tutoring core of SocraticBot (src/core.py)\<close>

text \<open>
  The development embeds \<^verbatim>\<open>LearningProgress\<close> and \<^verbatim>\<open>ResponseGenerator\<close> of
  \<^verbatim>\<open>src/core.py\<close>. A Python \<^verbatim>\<open>str\<close> is a \<^typ>\<open>string\<close>: its UTF-8 bytes
  (every literal of the source is ASCII except one emoji). A Python \<^verbatim>\<open>int\<close> is an
  \<^typ>\<open>int\<close>. The progress record is mutated in place by the source and is threaded
  explicitly here. Every call into a library (embedding, cosine similarity, retrieval,
  prompt formatting, the chat model) is a function that answers with its value or with
  the exception it raised.
\<close>

subsection \<open>Values\<close>

text \<open>An instance of \<^verbatim>\<open>Exception\<close>, carrying the text that \<^verbatim>\<open>str(e)\<close> gives.\<close>

datatype exn = Exception string

fun str_exn :: "exn \<Rightarrow> string" where
  "str_exn (Exception msg) = msg"

text \<open>
  A Python \<^verbatim>\<open>float\<close>: a finite value (given by the real number it denotes), an
  infinity or a NaN. \<open>float_gt a b\<close> is Python's \<^verbatim>\<open>a > b\<close>, false whenever a NaN is
  involved.
\<close>

datatype pyfloat = Finite real | PosInf | NegInf | NaN

fun float_gt :: "pyfloat \<Rightarrow> pyfloat \<Rightarrow> bool" where
  "float_gt NaN b = False"
| "float_gt a NaN = False"
| "float_gt (Finite x) (Finite y) = (y < x)"
| "float_gt (Finite x) PosInf = False"
| "float_gt (Finite x) NegInf = True"
| "float_gt PosInf PosInf = False"
| "float_gt PosInf b = True"
| "float_gt NegInf b = False"

text \<open>\<^verbatim>\<open>sep.join(xs)\<close> of Python.\<close>

fun join :: "string \<Rightarrow> string list \<Rightarrow> string" where
  "join sep [] = []"
| "join sep [x] = x"
| "join sep (x # y # ys) = x @ sep @ join sep (y # ys)"

text \<open>\<^verbatim>\<open>str(n)\<close> of Python for an \<^verbatim>\<open>int\<close>: decimal digits, with a minus sign when negative.\<close>

definition digit_char :: "nat \<Rightarrow> char" where
  "digit_char d = ''0123456789'' ! d"

function str_nat :: "nat \<Rightarrow> string" where
  "str_nat n = (if n < 10 then [digit_char n] else str_nat (n div 10) @ [digit_char (n mod 10)])"
  by pat_completeness auto
termination
  by (relation "measure id") auto

definition str_int :: "int \<Rightarrow> string" where
  "str_int i = (if i < 0 then CHR ''-'' # str_nat (nat (- i)) else str_nat (nat i))"

subsection \<open>LearningProgress\<close>

text \<open>
  \<^verbatim>\<open>
  @dataclass
  class LearningProgress:
      completed: bool = False
      attempts: int = 0
      hints_given: list[str] = None
  \<close>
  The record holds the fields of one instance, with the contents of its hint list.
\<close>

record LearningProgress =
  completed :: bool
  attempts :: int
  hints_given :: "string list"

text \<open>
  Construction is modelled over a heap of list objects, since \<^verbatim>\<open>__post_init__\<close> is about
  which list object an instance holds. A reference is a position in the heap; allocating
  appends a cell, so the reference of a new list is the length of the heap before.
  The field \<open>hints_ref\<close> of an instance is \<open>None\<close> for Python's \<^verbatim>\<open>None\<close>.
\<close>

type_synonym ref = nat
type_synonym heap = "string list list"

record LearningProgress_object =
  completed_of :: bool
  attempts_of :: int
  hints_ref :: "ref option"

text \<open>The expression \<^verbatim>\<open>[]\<close>: a new, empty list object.\<close>

definition new_list :: "heap \<Rightarrow> ref \<times> heap" where
  "new_list h = (length h, h @ [[]])"

text \<open>\<^verbatim>\<open>__post_init__\<close> (lines 23 to 25).\<close>

definition post_init :: "LearningProgress_object \<Rightarrow> heap \<Rightarrow> LearningProgress_object \<times> heap" where
  "post_init self h =
     (case hints_ref self of
        None \<Rightarrow> (case new_list h of (r, h') \<Rightarrow> (self\<lparr>hints_ref := Some r\<rparr>, h'))
      | Some r \<Rightarrow> (self, h))"

text \<open>
  The \<^verbatim>\<open>__init__\<close> that \<^verbatim>\<open>@dataclass\<close> generates: it stores the three arguments and
  calls \<^verbatim>\<open>__post_init__\<close>. \<open>LearningProgress_default\<close> is the call \<^verbatim>\<open>LearningProgress()\<close>,
  where each argument takes the default of its field.
\<close>

definition LearningProgress_init ::
  "bool \<Rightarrow> int \<Rightarrow> ref option \<Rightarrow> heap \<Rightarrow> LearningProgress_object \<times> heap" where
  "LearningProgress_init c a hs h =
     post_init \<lparr>completed_of = c, attempts_of = a, hints_ref = hs\<rparr> h"

definition LearningProgress_default :: "heap \<Rightarrow> LearningProgress_object \<times> heap" where
  "LearningProgress_default h = LearningProgress_init False 0 None h"

text \<open>\<^verbatim>\<open>xs.append(x)\<close> on the list object at reference \<open>r\<close>.\<close>

definition list_append :: "ref \<Rightarrow> string \<Rightarrow> heap \<Rightarrow> heap" where
  "list_append r x h = (if r < length h then h[r := h ! r @ [x]] else h)"

text \<open>
  The fields of an instance as values, read through the heap; \<open>None\<close> when the instance
  holds no list.
\<close>

definition fields_of :: "heap \<Rightarrow> LearningProgress_object \<Rightarrow> LearningProgress option" where
  "fields_of h obj =
     (case hints_ref obj of
        None \<Rightarrow> None
      | Some r \<Rightarrow>
          if r < length h
          then Some \<lparr>completed = completed_of obj, attempts = attempts_of obj, hints_given = h ! r\<rparr>
          else None)"

subsection \<open>ResponseGenerator and the libraries it calls\<close>

text \<open>
  The arguments that \<^verbatim>\<open>format_prompt\<close> receives (lines 183 to 189).
\<close>

record prompt_args =
  context_arg :: string
  question_arg :: string
  user_answer_arg :: string
  attempts_arg :: int
  previous_hints_arg :: string

type_synonym embedding = "pyfloat list"
type_synonym messages = "string list"

text \<open>
  A \<^verbatim>\<open>Chroma\<close> store is what its retriever answers:
  \<^verbatim>\<open>vector_db.as_retriever(search_type="mmr", search_kwargs={"k": 5, "fetch_k": 8})
  .get_relevant_documents(question)\<close>, as the \<^verbatim>\<open>page_content\<close> of each document in order.
\<close>

type_synonym Chroma = "string \<Rightarrow> exn + string list"

text \<open>
  The attributes set by \<^verbatim>\<open>__init__\<close> (lines 78 to 81):
  \<open>llm\<close> is \<^verbatim>\<open>self.llm.generate([messages]).generations[0][0].text\<close>,
  \<open>embeddings\<close> is \<^verbatim>\<open>self.embeddings.embed_query\<close>.
\<close>

record ResponseGenerator =
  llm :: "messages \<Rightarrow> exn + string"
  similarity_threshold :: pyfloat
  embeddings :: "string \<Rightarrow> exn + embedding"

text \<open>
  What the module imports and calls:
  \<open>cos_sim\<close> is \<^verbatim>\<open>util.cos_sim(a, b).item()\<close>,
  \<open>format_prompt\<close> is \<^verbatim>\<open>ChatPromptTemplate.from_template(template).format_prompt(...).to_messages()\<close>,
  \<open>strip\<close> is \<^verbatim>\<open>str.strip\<close>.
\<close>

record library =
  cos_sim :: "embedding \<Rightarrow> embedding \<Rightarrow> exn + pyfloat"
  format_prompt :: "string \<Rightarrow> prompt_args \<Rightarrow> exn + messages"
  strip :: "string \<Rightarrow> string"

text \<open>
  The literal \<^verbatim>\<open>0.85\<close> of line 80 denotes the double nearest to 0.85, which is
  7656119366529843 / 2^53.
\<close>

definition threshold_literal :: pyfloat where
  "threshold_literal = Finite (7656119366529843 / 9007199254740992)"

definition ResponseGenerator_init ::
  "(messages \<Rightarrow> exn + string) \<Rightarrow> (string \<Rightarrow> exn + embedding) \<Rightarrow> ResponseGenerator" where
  "ResponseGenerator_init chat_model embed_model =
     \<lparr>llm = chat_model, similarity_threshold = threshold_literal, embeddings = embed_model\<rparr>"

text \<open>
  What a method leaves behind: the value it returns (or the exception that leaves it),
  the progress record as it is at that moment, and the lines it has sent to
  \<^verbatim>\<open>logger.error\<close>.
\<close>

record 'a outcome =
  returned :: 'a
  state :: LearningProgress
  logged :: "string list"

text \<open>\<^verbatim>\<open>_calculate_similarity\<close> (lines 107 to 111).\<close>

definition calculate_similarity ::
  "ResponseGenerator \<Rightarrow> library \<Rightarrow> string \<Rightarrow> string \<Rightarrow> exn + pyfloat" where
  "calculate_similarity self lib correct_answer user_answer =
     (case embeddings self correct_answer of
        Inl e \<Rightarrow> Inl e
      | Inr correct_embedding \<Rightarrow>
          (case embeddings self user_answer of
             Inl e \<Rightarrow> Inl e
           | Inr user_embedding \<Rightarrow> cos_sim lib correct_embedding user_embedding))"

text \<open>\<^verbatim>\<open>_get_enhanced_context\<close> (lines 113 to 120).\<close>

definition get_enhanced_context :: "string \<Rightarrow> Chroma \<Rightarrow> exn + string" where
  "get_enhanced_context question vector_db =
     (case vector_db question of
        Inl e \<Rightarrow> Inl e
      | Inr relevant_docs \<Rightarrow> Inr (join ''\<newline>'' (take 3 relevant_docs)))"

text \<open>\<^verbatim>\<open>_handle_correct_answer\<close> (lines 122 to 132). The emoji is U+1F389.\<close>

definition party_popper :: string where
  "party_popper = [CHR 0xF0, CHR 0x9F, CHR 0x8E, CHR 0x89]"

definition attempts_feedback :: "LearningProgress \<Rightarrow> string" where
  "attempts_feedback progress =
     (if attempts progress = 0
      then ''Excellent work! You found the solution on your first try!''
      else ''Well done! You persevered and found the correct answer after ''
           @ str_int (attempts progress + 1) @ '' attempts.'')"

definition handle_correct_answer :: "LearningProgress \<Rightarrow> string outcome" where
  "handle_correct_answer progress =
     (if \<not> completed progress
      then (let progress' = progress\<lparr>completed := True\<rparr>
            in \<lparr>returned = party_popper @ '' Congratulations! '' @ attempts_feedback progress'
                   @ '' Your understanding has grown through this process.'',
                state = progress', logged = []\<rparr>)
      else \<lparr>returned = ''.'', state = progress, logged = []\<rparr>)"

text \<open>\<^verbatim>\<open>_get_dynamic_prompt_template\<close> (lines 134 to 175) and its three literals.\<close>

definition first_attempt_template :: string where
  "first_attempt_template =
     ''\<newline>'' @
     ''            You are an encouraging educational AI assistant. The user is just starting to work on this problem. \<newline>'' @
     ''\<newline>'' @
     ''            Context: {context}\<newline>'' @
     ''\<newline>'' @
     ''            Question: {question}\<newline>'' @
     ''            User's First Attempt: {user_answer}\<newline>'' @
     ''\<newline>'' @
     ''            Provide gentle guidance and a starting point for thinking about the problem. \<newline>'' @
     ''            Focus on understanding the question and identifying key concepts.\<newline>'' @
     ''            ''"

definition progress_template :: string where
  "progress_template =
     ''\<newline>'' @
     ''            You are an educational AI assistant helping a student who is making progress.\<newline>'' @
     ''            \<newline>'' @
     ''\<newline>'' @
     ''            Context: {context}\<newline>'' @
     ''            Previous Attempts: {attempts}\<newline>'' @
     ''\<newline>'' @
     ''            Question: {question}\<newline>'' @
     ''            Latest Answer: {user_answer}\<newline>'' @
     ''\<newline>'' @
     ''            Provide more specific hints based on their answer. Point out what they've understood correctly\<newline>'' @
     ''            and gently guide them toward areas they might have missed.  \<newline>'' @
     ''            ''"

definition struggling_template :: string where
  "struggling_template =
     ''\<newline>'' @
     ''            You are an educational AI assistant helping a student who might be struggling.\<newline>'' @
     ''\<newline>'' @
     ''            Context: {context}\<newline>'' @
     ''            Attempts Made: {attempts}\<newline>'' @
     ''\<newline>'' @
     ''            Question: {question}\<newline>'' @
     ''            Latest Answer: {user_answer}\<newline>'' @
     ''\<newline>'' @
     ''            Break down the problem into smaller steps. Provide more structured guidance\<newline>'' @
     ''            while still encouraging independent thinking. Consider suggesting different\<newline>'' @
     ''            approaches or ways of thinking about the problem. \<newline>'' @
     ''            ''"

definition get_dynamic_prompt_template :: "LearningProgress \<Rightarrow> string" where
  "get_dynamic_prompt_template progress =
     (if attempts progress = 0 then first_attempt_template
      else if attempts progress < 3 then progress_template
      else struggling_template)"

text \<open>
  \<^verbatim>\<open>_get_encouragement\<close> (lines 208 to 217): a dictionary and \<^verbatim>\<open>dict.get\<close> with a default.
\<close>

definition encouragements :: "(int \<times> string) list" where
  "encouragements =
     [(0, ''Let's start exploring this together!''),
      (1, ''You're making progress! Keep thinking about it.''),
      (2, ''You're getting closer! Consider these points:''),
      (3, ''Don't give up! Here's a different way to think about it:''),
      (4, ''You're putting in great effort! Let's break this down further:'')]"

definition get_encouragement :: "int \<Rightarrow> string" where
  "get_encouragement n =
     (case map_of encouragements n of
        Some s \<Rightarrow> s
      | None \<Rightarrow> ''Keep persevering! Here's some guidance:'')"

text \<open>\<^verbatim>\<open>_format_response\<close> (lines 203 to 206).\<close>

definition format_response :: "string \<Rightarrow> LearningProgress \<Rightarrow> string" where
  "format_response hint progress =
     get_encouragement (attempts progress) @ ''\<newline>\<newline>'' @ hint"

text \<open>
  \<^verbatim>\<open>_generate_llm_response\<close> (lines 177 to 201). Formatting the prompt happens before the
  \<^verbatim>\<open>try\<close>, so its exception leaves the method; everything from the call of the chat model
  on is inside the \<^verbatim>\<open>try\<close>, whose handler logs and returns the apology.
\<close>

definition llm_apology :: string where
  "llm_apology = ''I encountered an issue generating feedback. Please try again or rephrase your answer.''"

definition record_hint :: "string \<Rightarrow> LearningProgress \<Rightarrow> LearningProgress" where
  "record_hint hint progress =
     (if hint \<notin> set (hints_given progress)
      then progress\<lparr>hints_given := hints_given progress @ [hint]\<rparr>
      else progress)"

definition generate_llm_response ::
  "ResponseGenerator \<Rightarrow> library \<Rightarrow> string \<Rightarrow> string \<Rightarrow> string \<Rightarrow> string \<Rightarrow> string
     \<Rightarrow> LearningProgress \<Rightarrow> (exn + string) outcome" where
  "generate_llm_response self lib template context question user_answer correct_answer progress =
     (case format_prompt lib template
             \<lparr>context_arg = context, question_arg = question, user_answer_arg = user_answer,
              attempts_arg = attempts progress,
              previous_hints_arg = join '', '' (hints_given progress)\<rparr> of
        Inl e \<Rightarrow> \<lparr>returned = Inl e, state = progress, logged = []\<rparr>
      | Inr msgs \<Rightarrow>
          (case llm self msgs of
             Inl e \<Rightarrow>
               \<lparr>returned = Inr llm_apology, state = progress,
                logged = [''Error generating LLM response: '' @ str_exn e]\<rparr>
           | Inr text \<Rightarrow>
               (let hint = strip lib text;
                    progress' = record_hint hint progress
                in \<lparr>returned = Inr (format_response hint progress'), state = progress',
                    logged = []\<rparr>)))"

text \<open>
  \<^verbatim>\<open>generate_response\<close> (lines 83 to 105). \<open>generate_response_try\<close> is the body of
  the \<^verbatim>\<open>try\<close> (lines 90 to 101): it returns a string or is left by an exception.
  \<open>on_exception\<close> is the handler (lines 103 to 105); it finds the progress record as the
  exception left it.
\<close>

definition fallback_message :: string where
  "fallback_message = ''I encountered an issue processing your answer. Please try again.''"

definition generate_response_try ::
  "ResponseGenerator \<Rightarrow> library \<Rightarrow> string \<Rightarrow> Chroma \<Rightarrow> string \<Rightarrow> string
     \<Rightarrow> LearningProgress \<Rightarrow> (exn + string) outcome" where
  "generate_response_try self lib question vector_db correct_answer user_answer progress =
     (case calculate_similarity self lib correct_answer user_answer of
        Inl e \<Rightarrow> \<lparr>returned = Inl e, state = progress, logged = []\<rparr>
      | Inr similarity \<Rightarrow>
          if float_gt similarity (similarity_threshold self)
          then (let r = handle_correct_answer progress
                in \<lparr>returned = Inr (returned r), state = state r, logged = logged r\<rparr>)
          else
            (case get_enhanced_context question vector_db of
               Inl e \<Rightarrow> \<lparr>returned = Inl e, state = progress, logged = []\<rparr>
             | Inr context \<Rightarrow>
                 (let template = get_dynamic_prompt_template progress;
                      r = generate_llm_response self lib template context question
                            user_answer correct_answer progress
                  in case returned r of
                       Inl e \<Rightarrow> r
                     | Inr response \<Rightarrow>
                         \<lparr>returned = Inr response,
                          state = (state r)\<lparr>attempts := attempts (state r) + 1\<rparr>,
                          logged = logged r\<rparr>)))"

definition on_exception :: "exn \<Rightarrow> (exn + string) outcome \<Rightarrow> string outcome" where
  "on_exception e r =
     \<lparr>returned = fallback_message, state = state r,
      logged = logged r @ [''Error in generate_response: '' @ str_exn e]\<rparr>"

definition generate_response ::
  "ResponseGenerator \<Rightarrow> library \<Rightarrow> string \<Rightarrow> Chroma \<Rightarrow> string \<Rightarrow> string
     \<Rightarrow> LearningProgress \<Rightarrow> string outcome" where
  "generate_response self lib question vector_db correct_answer user_answer progress =
     (let r = generate_response_try self lib question vector_db correct_answer user_answer progress
      in case returned r of
           Inl e \<Rightarrow> on_exception e r
         | Inr response \<Rightarrow> \<lparr>returned = response, state = state r, logged = logged r\<rparr>)"

subsection \<open>A session, and sample collaborators\<close>

text \<open>
  One call of \<^verbatim>\<open>generate_response\<close> as \<^verbatim>\<open>student_app.py\<close> makes it (lines 99 to 106):
  a generator built for this call, and the arguments. \<open>play\<close> makes the calls of a
  session one after the other on the same progress record.
\<close>

record turn =
  generator :: ResponseGenerator
  libs :: library
  question_of :: string
  vector_db_of :: Chroma
  correct_answer_of :: string
  user_answer_of :: string

definition play_turn :: "turn \<Rightarrow> LearningProgress \<Rightarrow> string outcome" where
  "play_turn t progress =
     generate_response (generator t) (libs t) (question_of t) (vector_db_of t)
       (correct_answer_of t) (user_answer_of t) progress"

fun play :: "turn list \<Rightarrow> LearningProgress \<Rightarrow> LearningProgress" where
  "play [] progress = progress"
| "play (t # ts) progress = play ts (state (play_turn t progress))"

text \<open>
  \<open>hint_of_turn t progress\<close> is the hint that the turn generates on this progress record
  (the value of \<^verbatim>\<open>hint\<close> at line 193), when the answer is judged incorrect, retrieval
  and prompt formatting succeed and the chat model answers; \<open>None\<close> on every other path.
  \<open>hints_of_session\<close> lists it for each turn of a session.
\<close>

definition hint_of_turn :: "turn \<Rightarrow> LearningProgress \<Rightarrow> string option" where
  "hint_of_turn t progress =
     (case calculate_similarity (generator t) (libs t) (correct_answer_of t) (user_answer_of t) of
        Inl e \<Rightarrow> None
      | Inr similarity \<Rightarrow>
          if float_gt similarity (similarity_threshold (generator t)) then None
          else
            (case get_enhanced_context (question_of t) (vector_db_of t) of
               Inl e \<Rightarrow> None
             | Inr context \<Rightarrow>
                 (case format_prompt (libs t) (get_dynamic_prompt_template progress)
                         \<lparr>context_arg = context, question_arg = question_of t,
                          user_answer_arg = user_answer_of t,
                          attempts_arg = attempts progress,
                          previous_hints_arg = join '', '' (hints_given progress)\<rparr> of
                    Inl e \<Rightarrow> None
                  | Inr msgs \<Rightarrow>
                      (case llm (generator t) msgs of
                         Inl e \<Rightarrow> None
                       | Inr reply \<Rightarrow> Some (strip (libs t) reply)))))"

fun hints_of_session :: "turn list \<Rightarrow> LearningProgress \<Rightarrow> string option list" where
  "hints_of_session [] progress = []"
| "hints_of_session (t # ts) progress =
     hint_of_turn t progress # hints_of_session ts (state (play_turn t progress))"

text \<open>
  Sample collaborators: a strip of blanks, a library whose similarity is fixed and whose
  prompt is the template followed by the arguments, a generator whose chat model gives a
  fixed answer, a store with four passages.
\<close>

definition strip_blanks :: "string \<Rightarrow> string" where
  "strip_blanks s =
     rev (dropWhile (\<lambda>c. c = CHR '' '') (rev (dropWhile (\<lambda>c. c = CHR '' '') s)))"

definition sample_library :: "pyfloat \<Rightarrow> library" where
  "sample_library sim =
     \<lparr>cos_sim = (\<lambda>a b. Inr sim),
      format_prompt = (\<lambda>template args. Inr [template, context_arg args, question_arg args,
                         user_answer_arg args, previous_hints_arg args]),
      strip = strip_blanks\<rparr>"

definition sample_generator :: "exn + string \<Rightarrow> ResponseGenerator" where
  "sample_generator answer =
     ResponseGenerator_init (\<lambda>msgs. answer) (\<lambda>s. Inr [Finite 1, Finite 0])"

definition sample_db :: Chroma where
  "sample_db q = Inr [''Plants absorb light.'', ''Chlorophyll is green.'',
                      ''Water is split.'', ''Sugar is stored.'']"

text \<open>
  Collaborators that fail: an embedding service that is unreachable, a store without its
  collection, a prompt library that rejects the template.
\<close>

definition offline_generator :: ResponseGenerator where
  "offline_generator =
     ResponseGenerator_init (\<lambda>msgs. Inr ''Think about light.'')
       (\<lambda>s. Inl (Exception ''connection refused''))"

definition broken_db :: Chroma where
  "broken_db q = Inl (Exception ''collection not found'')"

definition strict_library :: "pyfloat \<Rightarrow> library" where
  "strict_library sim =
     \<lparr>cos_sim = (\<lambda>a b. Inr sim),
      format_prompt = (\<lambda>template args. Inl (Exception ''missing variable'')),
      strip = strip_blanks\<rparr>"

definition sample_turn :: "pyfloat \<Rightarrow> exn + string \<Rightarrow> turn" where
  "sample_turn sim answer =
     \<lparr>generator = sample_generator answer, libs = sample_library sim,
      question_of = ''What is photosynthesis?'', vector_db_of = sample_db,
      correct_answer_of = ''Plants turn light into sugar.'',
      user_answer_of = ''Plants eat soil.''\<rparr>"

definition sample_progress :: "bool \<Rightarrow> int \<Rightarrow> string list \<Rightarrow> LearningProgress" where
  "sample_progress c a hs = \<lparr>completed = c, attempts = a, hints_given = hs\<rparr>"

section \<open>Properties\<close>

subsection \<open>The paths through one call\<close>

lemma float_gt_Finite_iff: "\<not> float_gt (Finite x) (Finite t) \<longleftrightarrow> x \<le> t"
  by auto

lemma try_similarity_fails:
  "calculate_similarity self lib ca ua = Inl e \<Longrightarrow>
   generate_response_try self lib q db ca ua p = \<lparr>returned = Inl e, state = p, logged = []\<rparr>"
  by (simp add: generate_response_try_def)

lemma try_correct:
  "calculate_similarity self lib ca ua = Inr sim \<Longrightarrow>
   float_gt sim (similarity_threshold self) \<Longrightarrow>
   generate_response_try self lib q db ca ua p =
     \<lparr>returned = Inr (returned (handle_correct_answer p)),
      state = state (handle_correct_answer p),
      logged = logged (handle_correct_answer p)\<rparr>"
  by (simp add: generate_response_try_def Let_def)

lemma try_context_fails:
  "calculate_similarity self lib ca ua = Inr sim \<Longrightarrow>
   \<not> float_gt sim (similarity_threshold self) \<Longrightarrow>
   get_enhanced_context q db = Inl e \<Longrightarrow>
   generate_response_try self lib q db ca ua p = \<lparr>returned = Inl e, state = p, logged = []\<rparr>"
  by (simp add: generate_response_try_def)

lemma try_incorrect:
  "calculate_similarity self lib ca ua = Inr sim \<Longrightarrow>
   \<not> float_gt sim (similarity_threshold self) \<Longrightarrow>
   get_enhanced_context q db = Inr ctx \<Longrightarrow>
   generate_response_try self lib q db ca ua p =
     (let r = generate_llm_response self lib (get_dynamic_prompt_template p) ctx q ua ca p
      in case returned r of
           Inl e \<Rightarrow> r
         | Inr response \<Rightarrow>
             \<lparr>returned = Inr response,
              state = (state r)\<lparr>attempts := attempts (state r) + 1\<rparr>,
              logged = logged r\<rparr>)"
  by (simp add: generate_response_try_def Let_def)

lemma llm_response_format_fails:
  "format_prompt lib t
     \<lparr>context_arg = ctx, question_arg = q, user_answer_arg = ua, attempts_arg = attempts p,
      previous_hints_arg = join '', '' (hints_given p)\<rparr> = Inl e \<Longrightarrow>
   generate_llm_response self lib t ctx q ua ca p = \<lparr>returned = Inl e, state = p, logged = []\<rparr>"
  by (simp add: generate_llm_response_def)

lemma llm_response_llm_fails:
  "format_prompt lib t
     \<lparr>context_arg = ctx, question_arg = q, user_answer_arg = ua, attempts_arg = attempts p,
      previous_hints_arg = join '', '' (hints_given p)\<rparr> = Inr msgs \<Longrightarrow>
   llm self msgs = Inl e \<Longrightarrow>
   generate_llm_response self lib t ctx q ua ca p =
     \<lparr>returned = Inr llm_apology, state = p,
      logged = [''Error generating LLM response: '' @ str_exn e]\<rparr>"
  by (simp add: generate_llm_response_def)

lemma llm_response_hint:
  "format_prompt lib t
     \<lparr>context_arg = ctx, question_arg = q, user_answer_arg = ua, attempts_arg = attempts p,
      previous_hints_arg = join '', '' (hints_given p)\<rparr> = Inr msgs \<Longrightarrow>
   llm self msgs = Inr text \<Longrightarrow>
   generate_llm_response self lib t ctx q ua ca p =
     \<lparr>returned = Inr (format_response (strip lib text) (record_hint (strip lib text) p)),
      state = record_hint (strip lib text) p, logged = []\<rparr>"
  by (simp add: generate_llm_response_def Let_def)

subsection \<open>The sample collaborators\<close>

lemma sample_similarity:
  "calculate_similarity (sample_generator a) (sample_library sim) ca ua = Inr sim"
  by (simp add: calculate_similarity_def sample_generator_def sample_library_def
      ResponseGenerator_init_def)

lemma sample_threshold: "similarity_threshold (sample_generator a) = threshold_literal"
  by (simp add: sample_generator_def ResponseGenerator_init_def)

lemma sample_llm: "llm (sample_generator a) msgs = a"
  by (simp add: sample_generator_def ResponseGenerator_init_def)

lemma sample_format_prompt:
  "format_prompt (sample_library sim) t args =
     Inr [t, context_arg args, question_arg args, user_answer_arg args, previous_hints_arg args]"
  by (simp add: sample_library_def)

lemma sample_strip: "strip (sample_library sim) = strip_blanks"
  by (simp add: sample_library_def)

lemma sample_context:
  "get_enhanced_context q sample_db =
     Inr ''Plants absorb light.\<newline>Chlorophyll is green.\<newline>Water is split.''"
  by (simp add: get_enhanced_context_def sample_db_def)

lemma half_below: "\<not> float_gt (Finite (1/2)) threshold_literal"
  by (simp add: threshold_literal_def)

lemma nine_tenths_above: "float_gt (Finite (9/10)) threshold_literal"
  by (simp add: threshold_literal_def)

subsection \<open>A correct answer\<close>

declare str_nat.simps [simp del]

lemma str_int_3: "str_int 3 = ''3''"
  by (simp add: str_int_def str_nat.simps digit_char_def)

lemma handle_correct_first:
  "\<not> completed p \<Longrightarrow>
   handle_correct_answer p =
     \<lparr>returned = party_popper @ '' Congratulations! '' @ attempts_feedback p
        @ '' Your understanding has grown through this process.'',
      state = p\<lparr>completed := True\<rparr>, logged = []\<rparr>"
  by (simp add: handle_correct_answer_def Let_def attempts_feedback_def)

lemma handle_correct_again:
  "completed p \<Longrightarrow> handle_correct_answer p = \<lparr>returned = ''.'', state = p, logged = []\<rparr>"
  by (simp add: handle_correct_answer_def)

lemma response_correct:
  "calculate_similarity self lib ca ua = Inr sim \<Longrightarrow>
   float_gt sim (similarity_threshold self) \<Longrightarrow>
   generate_response self lib q db ca ua p = handle_correct_answer p"
  by (simp add: generate_response_def try_correct Let_def)

text \<open>
  C2. When the similarity is above the threshold and the record is not yet completed,
  \<open>generate_response\<close> sets \<open>completed\<close>, leaves \<open>attempts\<close> and the hints as they
  are, and returns the congratulation: with \<open>attempts = 0\<close> the sentence with
  "first try", with \<open>attempts > 0\<close> the sentence with "after N attempts" where N is
  \<open>attempts + 1\<close>; for \<open>attempts = 2\<close> that is "after 3 attempts".
\<close>

theorem correct_answer_completes:
  assumes "calculate_similarity self lib ca ua = Inr sim"
    and "float_gt sim (similarity_threshold self)"
    and "\<not> completed p"
  shows "completed (state (generate_response self lib q db ca ua p)) \<and>
         attempts (state (generate_response self lib q db ca ua p)) = attempts p \<and>
         hints_given (state (generate_response self lib q db ca ua p)) = hints_given p \<and>
         sublist ''Congratulations!'' (returned (generate_response self lib q db ca ua p)) \<and>
         (attempts p = 0 \<longrightarrow>
            returned (generate_response self lib q db ca ua p) =
              party_popper @ '' Congratulations! Excellent work! You found the solution on your first try! Your understanding has grown through this process.'' \<and>
            sublist ''first try'' (returned (generate_response self lib q db ca ua p))) \<and>
         (0 < attempts p \<longrightarrow>
            returned (generate_response self lib q db ca ua p) =
              party_popper @ '' Congratulations! Well done! You persevered and found the correct answer after ''
               @ str_int (attempts p + 1) @ '' attempts. Your understanding has grown through this process.'' \<and>
            sublist (''after '' @ str_int (attempts p + 1) @ '' attempts'')
              (returned (generate_response self lib q db ca ua p))) \<and>
         (attempts p = 2 \<longrightarrow>
            sublist ''after 3 attempts'' (returned (generate_response self lib q db ca ua p)))"
proof -
  let ?r = "generate_response self lib q db ca ua p"
  have r: "?r = \<lparr>returned = party_popper @ '' Congratulations! '' @ attempts_feedback p
        @ '' Your understanding has grown through this process.'',
      state = p\<lparr>completed := True\<rparr>, logged = []\<rparr>"
    using assms by (simp add: response_correct handle_correct_first)
  have st: "completed (state ?r) \<and> attempts (state ?r) = attempts p \<and>
            hints_given (state ?r) = hints_given p"
    by (simp add: r)
  have congr: "sublist ''Congratulations!'' (returned ?r)"
  proof -
    have "returned ?r = (party_popper @ '' '') @ ''Congratulations!'' @
       ('' '' @ attempts_feedback p @ '' Your understanding has grown through this process.'')"
      by (simp add: r)
    then show ?thesis by (simp only: sublist_appendI)
  qed
  have first: "attempts p = 0 \<longrightarrow>
            returned ?r =
              party_popper @ '' Congratulations! Excellent work! You found the solution on your first try! Your understanding has grown through this process.'' \<and>
            sublist ''first try'' (returned ?r)"
  proof
    assume a: "attempts p = 0"
    have eq: "returned ?r = party_popper @ '' Congratulations! Excellent work! You found the solution on your first try! Your understanding has grown through this process.''"
      using a by (simp add: r attempts_feedback_def)
    have "returned ?r = (party_popper @ '' Congratulations! Excellent work! You found the solution on your '')
        @ ''first try'' @ ''! Your understanding has grown through this process.''"
      by (simp add: eq)
    then have "sublist ''first try'' (returned ?r)" by (simp only: sublist_appendI)
    with eq show "returned ?r = party_popper @ '' Congratulations! Excellent work! You found the solution on your first try! Your understanding has grown through this process.'' \<and>
            sublist ''first try'' (returned ?r)" by simp
  qed
  have later: "attempts p \<noteq> 0 \<Longrightarrow>
            returned ?r =
              party_popper @ '' Congratulations! Well done! You persevered and found the correct answer after ''
               @ str_int (attempts p + 1) @ '' attempts. Your understanding has grown through this process.'' \<and>
            sublist (''after '' @ str_int (attempts p + 1) @ '' attempts'') (returned ?r)"
  proof -
    assume a: "attempts p \<noteq> 0"
    have eq: "returned ?r = party_popper @ '' Congratulations! Well done! You persevered and found the correct answer after ''
               @ str_int (attempts p + 1) @ '' attempts. Your understanding has grown through this process.''"
      using a by (simp add: r attempts_feedback_def)
    have "returned ?r = (party_popper @ '' Congratulations! Well done! You persevered and found the correct answer '')
        @ (''after '' @ str_int (attempts p + 1) @ '' attempts'') @ ''. Your understanding has grown through this process.''"
      by (simp add: eq)
    then have "sublist (''after '' @ str_int (attempts p + 1) @ '' attempts'') (returned ?r)"
      by (simp only: sublist_appendI)
    with eq show ?thesis by simp
  qed
  have two: "attempts p = 2 \<longrightarrow> sublist ''after 3 attempts'' (returned ?r)"
  proof
    assume a: "attempts p = 2"
    then have "attempts p \<noteq> 0" by simp
    from later [OF this] have "sublist (''after '' @ str_int (attempts p + 1) @ '' attempts'') (returned ?r)"
      by (rule conjunct2)
    moreover have "''after '' @ str_int (attempts p + 1) @ '' attempts'' = ''after 3 attempts''"
      using a by (simp add: str_int_3)
    ultimately show "sublist ''after 3 attempts'' (returned ?r)"
      by (simp only:)
  qed
  from later have later': "0 < attempts p \<longrightarrow>
            returned ?r =
              party_popper @ '' Congratulations! Well done! You persevered and found the correct answer after ''
               @ str_int (attempts p + 1) @ '' attempts. Your understanding has grown through this process.'' \<and>
            sublist (''after '' @ str_int (attempts p + 1) @ '' attempts'') (returned ?r)"
    by fastforce
  from st congr first later' two show ?thesis by (simp only: simp_thms)
qed

text \<open>Two calls with a similarity of 9/10: a first try, and a success after two attempts.\<close>

theorem correct_answer_completes_witness:
  "float_gt (Finite (9/10)) (similarity_threshold (sample_generator (Inr ''Try again.''))) \<and>
   \<not> completed (sample_progress False 0 []) \<and>
   completed (state (generate_response (sample_generator (Inr ''Try again.''))
      (sample_library (Finite (9/10))) ''What is photosynthesis?'' sample_db
      ''Plants turn light into sugar.'' ''Plants make sugar from light.''
      (sample_progress False 0 []))) \<and>
   sublist ''first try'' (returned (generate_response (sample_generator (Inr ''Try again.''))
      (sample_library (Finite (9/10))) ''What is photosynthesis?'' sample_db
      ''Plants turn light into sugar.'' ''Plants make sugar from light.''
      (sample_progress False 0 []))) \<and>
   attempts (state (generate_response (sample_generator (Inr ''Try again.''))
      (sample_library (Finite (9/10))) ''What is photosynthesis?'' sample_db
      ''Plants turn light into sugar.'' ''Plants make sugar from light.''
      (sample_progress False 2 [''Look at the leaves.'']))) = 2 \<and>
   sublist ''after 3 attempts'' (returned (generate_response (sample_generator (Inr ''Try again.''))
      (sample_library (Finite (9/10))) ''What is photosynthesis?'' sample_db
      ''Plants turn light into sugar.'' ''Plants make sugar from light.''
      (sample_progress False 2 [''Look at the leaves.''])))"
proof -
  let ?g = "sample_generator (Inr ''Try again.'')"
  let ?l = "sample_library (Finite (9/10))"
  have h1: "calculate_similarity ?g ?l ''Plants turn light into sugar.''
              ''Plants make sugar from light.'' = Inr (Finite (9/10))"
    by (rule sample_similarity)
  have h2: "float_gt (Finite (9/10)) (similarity_threshold ?g)"
    by (simp only: sample_threshold nine_tenths_above)
  have h3: "\<not> completed (sample_progress False 0 [])"
    by (simp add: sample_progress_def)
  have h4: "\<not> completed (sample_progress False 2 [''Look at the leaves.''])"
    by (simp add: sample_progress_def)
  have a0: "attempts (sample_progress False 0 []) = 0"
    by (simp add: sample_progress_def)
  have a2: "attempts (sample_progress False 2 [''Look at the leaves.'']) = 2"
    by (simp add: sample_progress_def)
  note t0 = correct_answer_completes [OF h1 h2 h3, of "''What is photosynthesis?''" sample_db]
  note t2 = correct_answer_completes [OF h1 h2 h4, of "''What is photosynthesis?''" sample_db]
  from t0 have c0: "completed (state (generate_response ?g ?l ''What is photosynthesis?'' sample_db
      ''Plants turn light into sugar.'' ''Plants make sugar from light.''
      (sample_progress False 0 [])))"
    by (rule conjunct1)
  from t0 a0 have f0: "sublist ''first try'' (returned (generate_response ?g ?l
      ''What is photosynthesis?'' sample_db
      ''Plants turn light into sugar.'' ''Plants make sugar from light.''
      (sample_progress False 0 [])))"
    by blast
  from t2 have "attempts (state (generate_response ?g ?l ''What is photosynthesis?'' sample_db
      ''Plants turn light into sugar.'' ''Plants make sugar from light.''
      (sample_progress False 2 [''Look at the leaves.'']))) =
      attempts (sample_progress False 2 [''Look at the leaves.''])"
    by blast
  with a2 have c2: "attempts (state (generate_response ?g ?l ''What is photosynthesis?'' sample_db
      ''Plants turn light into sugar.'' ''Plants make sugar from light.''
      (sample_progress False 2 [''Look at the leaves.'']))) = 2"
    by (simp only:)
  from t2 a2 have f2: "sublist ''after 3 attempts'' (returned (generate_response ?g ?l
      ''What is photosynthesis?'' sample_db
      ''Plants turn light into sugar.'' ''Plants make sugar from light.''
      (sample_progress False 2 [''Look at the leaves.''])))"
    by blast
  from h2 h3 c0 f0 c2 f2 show ?thesis
    by (simp only: simp_thms)
qed

text \<open>
  C6. When the similarity is above the threshold and the record is already completed,
  \<open>generate_response\<close> returns the placeholder \<^verbatim>\<open>"."\<close>, which does not contain the
  congratulation, and the progress record is exactly as before: no attempt is counted
  and nothing is logged.
\<close>

theorem correct_again_is_noop:
  assumes "calculate_similarity self lib ca ua = Inr sim"
    and "float_gt sim (similarity_threshold self)"
    and "completed p"
  shows "returned (generate_response self lib q db ca ua p) = ''.'' \<and>
         state (generate_response self lib q db ca ua p) = p \<and>
         logged (generate_response self lib q db ca ua p) = [] \<and>
         \<not> sublist ''Congratulations'' (returned (generate_response self lib q db ca ua p))"
  using assms by (simp add: response_correct handle_correct_again sublist_Cons_right)

text \<open>A correct answer submitted again after completion.\<close>

theorem correct_again_is_noop_witness:
  "float_gt (Finite (9/10)) (similarity_threshold (sample_generator (Inr ''Try again.''))) \<and>
   completed (sample_progress True 2 [''Look at the leaves.'']) \<and>
   returned (generate_response (sample_generator (Inr ''Try again.''))
      (sample_library (Finite (9/10))) ''What is photosynthesis?'' sample_db
      ''Plants turn light into sugar.'' ''Plants make sugar from light.''
      (sample_progress True 2 [''Look at the leaves.''])) = ''.'' \<and>
   state (generate_response (sample_generator (Inr ''Try again.''))
      (sample_library (Finite (9/10))) ''What is photosynthesis?'' sample_db
      ''Plants turn light into sugar.'' ''Plants make sugar from light.''
      (sample_progress True 2 [''Look at the leaves.''])) =
     sample_progress True 2 [''Look at the leaves.'']"
proof -
  let ?g = "sample_generator (Inr ''Try again.'')"
  let ?l = "sample_library (Finite (9/10))"
  have h1: "calculate_similarity ?g ?l ''Plants turn light into sugar.''
              ''Plants make sugar from light.'' = Inr (Finite (9/10))"
    by (rule sample_similarity)
  have h2: "float_gt (Finite (9/10)) (similarity_threshold ?g)"
    by (simp only: sample_threshold nine_tenths_above)
  have h3: "completed (sample_progress True 2 [''Look at the leaves.''])"
    by (simp add: sample_progress_def)
  show ?thesis
    using correct_again_is_noop [OF h1 h2 h3, of "''What is photosynthesis?''" sample_db] h2 h3
    by (simp only: simp_thms)
qed

subsection \<open>An incorrect answer\<close>

lemma strip_blanks_example: "strip_blanks ''  Think about light. '' = ''Think about light.''"
  by (simp add: strip_blanks_def)

text \<open>
  C3. When the similarity is not above the threshold and retrieval, prompt formatting and
  the chat model succeed, \<open>attempts\<close> grows by exactly one and the returned text is the
  encouragement for the attempt count before the call, an empty line, and the hint (the
  stripped text of the chat model): the encouragement is a prefix of it and the hint is
  contained in it.
\<close>

theorem incorrect_answer_gets_hint:
  assumes "calculate_similarity self lib ca ua = Inr sim"
    and "\<not> float_gt sim (similarity_threshold self)"
    and "get_enhanced_context q db = Inr ctx"
    and "format_prompt lib (get_dynamic_prompt_template p)
           \<lparr>context_arg = ctx, question_arg = q, user_answer_arg = ua,
            attempts_arg = attempts p,
            previous_hints_arg = join '', '' (hints_given p)\<rparr> = Inr msgs"
    and "llm self msgs = Inr text"
  shows "attempts (state (generate_response self lib q db ca ua p)) = attempts p + 1 \<and>
         completed (state (generate_response self lib q db ca ua p)) = completed p \<and>
         returned (generate_response self lib q db ca ua p) =
           get_encouragement (attempts p) @ ''\<newline>\<newline>'' @ strip lib text \<and>
         prefix (get_encouragement (attempts p)) (returned (generate_response self lib q db ca ua p)) \<and>
         sublist (strip lib text) (returned (generate_response self lib q db ca ua p))"
proof -
  let ?r = "generate_response self lib q db ca ua p"
  let ?h = "strip lib text"
  have att: "attempts (record_hint ?h p) = attempts p" "completed (record_hint ?h p) = completed p"
    by (simp_all add: record_hint_def)
  have r: "?r = \<lparr>returned = format_response ?h (record_hint ?h p),
                 state = (record_hint ?h p)\<lparr>attempts := attempts p + 1\<rparr>, logged = []\<rparr>"
    using assms by (simp add: generate_response_def try_incorrect llm_response_hint Let_def att)
  have ret: "returned ?r = get_encouragement (attempts p) @ ''\<newline>\<newline>'' @ ?h"
    by (simp add: r format_response_def att)
  have "sublist ?h ((get_encouragement (attempts p) @ ''\<newline>\<newline>'') @ ?h)"
    by (rule sublist_append_leftI)
  then have sub: "sublist ?h (returned ?r)"
    by (simp only: ret append_assoc)
  have pre: "prefix (get_encouragement (attempts p)) (returned ?r)"
    by (simp only: ret prefixI)
  have st: "attempts (state ?r) = attempts p + 1" "completed (state ?r) = completed p"
    by (simp_all add: r att)
  from st ret pre sub show ?thesis by (simp only: simp_thms)
qed


text \<open>An incorrect second attempt, answered with a hint.\<close>

theorem incorrect_answer_gets_hint_witness:
  "\<not> float_gt (Finite (1/2)) (similarity_threshold (sample_generator (Inr ''  Think about light. ''))) \<and>
   attempts (state (generate_response (sample_generator (Inr ''  Think about light. ''))
      (sample_library (Finite (1/2))) ''What is photosynthesis?'' sample_db
      ''Plants turn light into sugar.'' ''Plants eat soil.''
      (sample_progress False 1 [''Look at the leaves.'']))) = 2 \<and>
   returned (generate_response (sample_generator (Inr ''  Think about light. ''))
      (sample_library (Finite (1/2))) ''What is photosynthesis?'' sample_db
      ''Plants turn light into sugar.'' ''Plants eat soil.''
      (sample_progress False 1 [''Look at the leaves.''])) =
     ''You're making progress! Keep thinking about it.\<newline>\<newline>Think about light.''"
proof -
  let ?g = "sample_generator (Inr ''  Think about light. '')"
  let ?l = "sample_library (Finite (1/2))"
  let ?p = "sample_progress False 1 [''Look at the leaves.'']"
  let ?ctx = "''Plants absorb light.\<newline>Chlorophyll is green.\<newline>Water is split.''"
  let ?msgs = "[get_dynamic_prompt_template ?p, ?ctx, ''What is photosynthesis?'',
                ''Plants eat soil.'', ''Look at the leaves.'']"
  have h1: "calculate_similarity ?g ?l ''Plants turn light into sugar.'' ''Plants eat soil.''
              = Inr (Finite (1/2))"
    by (rule sample_similarity)
  have h2: "\<not> float_gt (Finite (1/2)) (similarity_threshold ?g)"
    by (simp only: sample_threshold half_below not_False_eq_True)
  have h3: "get_enhanced_context ''What is photosynthesis?'' sample_db = Inr ?ctx"
    by (rule sample_context)
  have h4: "format_prompt ?l (get_dynamic_prompt_template ?p)
              \<lparr>context_arg = ?ctx, question_arg = ''What is photosynthesis?'',
               user_answer_arg = ''Plants eat soil.'', attempts_arg = attempts ?p,
               previous_hints_arg = join '', '' (hints_given ?p)\<rparr> = Inr ?msgs"
    by (simp add: sample_format_prompt sample_progress_def)
  have h5: "llm ?g ?msgs = Inr ''  Think about light. ''"
    by (rule sample_llm)
  have a: "attempts ?p = 1"
    by (simp add: sample_progress_def)
  have e: "get_encouragement 1 = ''You're making progress! Keep thinking about it.''"
    by (simp add: get_encouragement_def encouragements_def)
  show ?thesis
    using incorrect_answer_gets_hint [OF h1 h2 h3 h4 h5] h2
    by (simp add: a e sample_strip strip_blanks_example)
qed

subsection \<open>When the chat model fails\<close>

text \<open>
  C1, as the code has it. When the answer is not above the threshold, retrieval and prompt
  formatting succeed and the chat model raises, \<open>generate_response\<close> returns the fixed
  apology; the hints and the completion flag are as before, and \<open>attempts\<close> has grown
  by one: line 100 runs after every return of \<^verbatim>\<open>_generate_llm_response\<close>, the apology
  included.
\<close>

theorem llm_failure_counts_attempt:
  assumes "calculate_similarity self lib ca ua = Inr sim"
    and "\<not> float_gt sim (similarity_threshold self)"
    and "get_enhanced_context q db = Inr ctx"
    and "format_prompt lib (get_dynamic_prompt_template p)
           \<lparr>context_arg = ctx, question_arg = q, user_answer_arg = ua,
            attempts_arg = attempts p,
            previous_hints_arg = join '', '' (hints_given p)\<rparr> = Inr msgs"
    and "llm self msgs = Inl e"
  shows "returned (generate_response self lib q db ca ua p) = llm_apology \<and>
         hints_given (state (generate_response self lib q db ca ua p)) = hints_given p \<and>
         completed (state (generate_response self lib q db ca ua p)) = completed p \<and>
         attempts (state (generate_response self lib q db ca ua p)) = attempts p + 1 \<and>
         llm_apology =
           ''I encountered an issue generating feedback. Please try again or rephrase your answer.''"
  using assms
  by (simp add: generate_response_def try_incorrect llm_response_llm_fails Let_def
      llm_apology_def)

theorem llm_failure_counts_attempt_witness:
  "\<not> float_gt (Finite (1/2)) (similarity_threshold (sample_generator (Inl (Exception ''timeout'')))) \<and>
   llm (sample_generator (Inl (Exception ''timeout'')))
     [get_dynamic_prompt_template (sample_progress False 3 [''Look at the leaves.'']),
      ''Plants absorb light.\<newline>Chlorophyll is green.\<newline>Water is split.'',
      ''What is photosynthesis?'', ''Plants eat soil.'', ''Look at the leaves.'']
     = Inl (Exception ''timeout'') \<and>
   returned (generate_response (sample_generator (Inl (Exception ''timeout'')))
      (sample_library (Finite (1/2))) ''What is photosynthesis?'' sample_db
      ''Plants turn light into sugar.'' ''Plants eat soil.''
      (sample_progress False 3 [''Look at the leaves.''])) = llm_apology \<and>
   state (generate_response (sample_generator (Inl (Exception ''timeout'')))
      (sample_library (Finite (1/2))) ''What is photosynthesis?'' sample_db
      ''Plants turn light into sugar.'' ''Plants eat soil.''
      (sample_progress False 3 [''Look at the leaves.'']))
     = sample_progress False 4 [''Look at the leaves.'']"
proof -
  let ?g = "sample_generator (Inl (Exception ''timeout''))"
  let ?l = "sample_library (Finite (1/2))"
  let ?p = "sample_progress False 3 [''Look at the leaves.'']"
  let ?ctx = "''Plants absorb light.\<newline>Chlorophyll is green.\<newline>Water is split.''"
  let ?msgs = "[get_dynamic_prompt_template ?p, ?ctx, ''What is photosynthesis?'',
                ''Plants eat soil.'', ''Look at the leaves.'']"
  have h1: "calculate_similarity ?g ?l ''Plants turn light into sugar.'' ''Plants eat soil.''
              = Inr (Finite (1/2))"
    by (rule sample_similarity)
  have h2: "\<not> float_gt (Finite (1/2)) (similarity_threshold ?g)"
    by (simp only: sample_threshold half_below not_False_eq_True)
  have h3: "get_enhanced_context ''What is photosynthesis?'' sample_db = Inr ?ctx"
    by (rule sample_context)
  have h4: "format_prompt ?l (get_dynamic_prompt_template ?p)
              \<lparr>context_arg = ?ctx, question_arg = ''What is photosynthesis?'',
               user_answer_arg = ''Plants eat soil.'', attempts_arg = attempts ?p,
               previous_hints_arg = join '', '' (hints_given ?p)\<rparr> = Inr ?msgs"
    by (simp add: sample_format_prompt sample_progress_def)
  have h5: "llm ?g ?msgs = Inl (Exception ''timeout'')"
    by (rule sample_llm)
  have eq: "state (generate_response ?g ?l ''What is photosynthesis?'' sample_db
              ''Plants turn light into sugar.'' ''Plants eat soil.'' ?p)
            = sample_progress False 4 [''Look at the leaves.'']"
    using llm_failure_counts_attempt [OF h1 h2 h3 h4 h5]
    by (simp add: sample_progress_def LearningProgress.equality)
  show ?thesis
    using llm_failure_counts_attempt [OF h1 h2 h3 h4 h5] h2 h5 eq by simp
qed

text \<open>
  C1 as stated fails: with a similarity of 1/2 and a chat model that raises, a record
  with \<open>attempts = 0\<close> comes back with \<open>attempts = 1\<close>, together with the apology.
\<close>

theorem llm_failure_progress_unchanged_counterexample:
  "\<not> float_gt (Finite (1/2))
       (similarity_threshold (generator (sample_turn (Finite (1/2)) (Inl (Exception ''connection refused''))))) \<and>
   returned (play_turn (sample_turn (Finite (1/2)) (Inl (Exception ''connection refused'')))
       (sample_progress False 0 [])) = llm_apology \<and>
   attempts (sample_progress False 0 []) = 0 \<and>
   attempts (state (play_turn (sample_turn (Finite (1/2)) (Inl (Exception ''connection refused'')))
       (sample_progress False 0 []))) = 1 \<and>
   state (play_turn (sample_turn (Finite (1/2)) (Inl (Exception ''connection refused'')))
       (sample_progress False 0 [])) \<noteq> sample_progress False 0 []"
  by (simp add: play_turn_def sample_turn_def generate_response_def generate_response_try_def
      calculate_similarity_def get_enhanced_context_def sample_db_def threshold_literal_def
      generate_llm_response_def sample_library_def sample_generator_def
      ResponseGenerator_init_def sample_progress_def Let_def)

subsection \<open>What one call can do to the progress record\<close>

lemma record_hint_fields:
  "attempts (record_hint h p) = attempts p" "completed (record_hint h p) = completed p"
  by (simp_all add: record_hint_def)

lemma record_hint_length: "length (hints_given (record_hint h p)) \<le> Suc (length (hints_given p))"
  by (simp add: record_hint_def)

lemma llm_response_state:
  "state (generate_llm_response self lib t ctx q ua ca p) = p \<or>
   (\<exists>h. state (generate_llm_response self lib t ctx q ua ca p) = record_hint h p \<and>
        (\<exists>s. returned (generate_llm_response self lib t ctx q ua ca p) = Inr s))"
  by (auto simp add: generate_llm_response_def Let_def split: sum.splits)

lemma handle_correct_state:
  "state (handle_correct_answer p) = p \<or> state (handle_correct_answer p) = p\<lparr>completed := True\<rparr>"
  by (simp add: handle_correct_answer_def Let_def)

lemma response_state_cases:
  "state (generate_response self lib q db ca ua p) = p \<or>
   state (generate_response self lib q db ca ua p) = p\<lparr>completed := True\<rparr> \<or>
   state (generate_response self lib q db ca ua p) = p\<lparr>attempts := attempts p + 1\<rparr> \<or>
   (\<exists>h. state (generate_response self lib q db ca ua p) =
          (record_hint h p)\<lparr>attempts := attempts p + 1\<rparr>)"
proof (cases "calculate_similarity self lib ca ua")
  case (Inl e)
  then show ?thesis
    by (simp add: generate_response_def try_similarity_fails on_exception_def)
next
  case (Inr sim)
  show ?thesis
  proof (cases "float_gt sim (similarity_threshold self)")
    case True
    with Inr have "generate_response self lib q db ca ua p = handle_correct_answer p"
      by (simp add: generate_response_def try_correct Let_def)
    with handle_correct_state [of p] show ?thesis by auto
  next
    case False
    show ?thesis
    proof (cases "get_enhanced_context q db")
      case (Inl e)
      with Inr False show ?thesis
        by (simp add: generate_response_def try_context_fails on_exception_def)
    next
      case ctx: (Inr ctx)
      let ?r = "generate_llm_response self lib (get_dynamic_prompt_template p) ctx q ua ca p"
      show ?thesis
      proof (cases "returned ?r")
        case (Inl e)
        from llm_response_state [of self lib "get_dynamic_prompt_template p" ctx q ua ca p] Inl
        have "state ?r = p" by auto
        with Inr False ctx Inl show ?thesis
          by (simp add: generate_response_def try_incorrect on_exception_def Let_def)
      next
        case (Inr s)
        from llm_response_state [of self lib "get_dynamic_prompt_template p" ctx q ua ca p]
        have "state ?r = p \<or> (\<exists>h. state ?r = record_hint h p)" by auto
        moreover have "state (generate_response self lib q db ca ua p) =
                         (state ?r)\<lparr>attempts := attempts (state ?r) + 1\<rparr>"
          using \<open>calculate_similarity self lib ca ua = Inr sim\<close> False ctx Inr
          by (simp add: generate_response_def try_incorrect Let_def)
        ultimately show ?thesis
          by (auto simp add: record_hint_fields)
      qed
    qed
  qed
qed

text \<open>
  C4. On every path of one call of \<open>generate_response\<close> (a correct answer, a hint, the
  apology, the fallback): \<open>attempts\<close> does not decrease, \<open>completed\<close> does not go from
  true to false, and if the hints were at most \<open>attempts\<close> many before, they are so after.
\<close>

theorem progress_invariants_preserved:
  "attempts p \<le> attempts (state (generate_response self lib q db ca ua p)) \<and>
   (completed p \<longrightarrow> completed (state (generate_response self lib q db ca ua p))) \<and>
   (int (length (hints_given p)) \<le> attempts p \<longrightarrow>
      int (length (hints_given (state (generate_response self lib q db ca ua p))))
        \<le> attempts (state (generate_response self lib q db ca ua p)))"
proof -
  let ?s = "state (generate_response self lib q db ca ua p)"
  consider "?s = p" | "?s = p\<lparr>completed := True\<rparr>" | "?s = p\<lparr>attempts := attempts p + 1\<rparr>"
    | h where "?s = (record_hint h p)\<lparr>attempts := attempts p + 1\<rparr>"
    using response_state_cases [of self lib q db ca ua p] by blast
  then show ?thesis
  proof cases
    case 1 then show ?thesis by simp
  next
    case 2 then show ?thesis by simp
  next
    case 3 then show ?thesis by simp
  next
    case 4
    have "int (length (hints_given (record_hint h p))) \<le> int (length (hints_given p)) + 1"
      using record_hint_length [of h p] by simp
    with 4 show ?thesis by (simp add: record_hint_fields)
  qed
qed

text \<open>An incorrect answer with a new hint, on a completed record with one attempt and one hint.\<close>

theorem progress_invariants_preserved_witness:
  "completed (sample_progress True 1 [''Look at the leaves.'']) \<and>
   int (length (hints_given (sample_progress True 1 [''Look at the leaves.''])))
     \<le> attempts (sample_progress True 1 [''Look at the leaves.'']) \<and>
   completed (state (generate_response (sample_generator (Inr ''  Think about light. ''))
      (sample_library (Finite (1/2))) ''What is photosynthesis?'' sample_db
      ''Plants turn light into sugar.'' ''Plants eat soil.''
      (sample_progress True 1 [''Look at the leaves.'']))) \<and>
   int (length (hints_given (state (generate_response (sample_generator (Inr ''  Think about light. ''))
      (sample_library (Finite (1/2))) ''What is photosynthesis?'' sample_db
      ''Plants turn light into sugar.'' ''Plants eat soil.''
      (sample_progress True 1 [''Look at the leaves.''])))))
     \<le> attempts (state (generate_response (sample_generator (Inr ''  Think about light. ''))
      (sample_library (Finite (1/2))) ''What is photosynthesis?'' sample_db
      ''Plants turn light into sugar.'' ''Plants eat soil.''
      (sample_progress True 1 [''Look at the leaves.''])))"
proof -
  let ?p = "sample_progress True 1 [''Look at the leaves.'']"
  have h1: "completed ?p"
    by (simp add: sample_progress_def)
  have h2: "int (length (hints_given ?p)) \<le> attempts ?p"
    by (simp add: sample_progress_def)
  from progress_invariants_preserved [of ?p "sample_generator (Inr ''  Think about light. '')"
      "sample_library (Finite (1/2))" "''What is photosynthesis?''" sample_db
      "''Plants turn light into sugar.''" "''Plants eat soil.''"] h1 h2
  show ?thesis by blast
qed


subsection \<open>Exceptions that reach the handler\<close>

lemma try_raises_state:
  assumes "returned (generate_response_try self lib q db ca ua p) = Inl e"
  shows "state (generate_response_try self lib q db ca ua p) = p \<and>
         logged (generate_response_try self lib q db ca ua p) = []"
proof (cases "calculate_similarity self lib ca ua")
  case (Inl e')
  then show ?thesis by (simp add: try_similarity_fails)
next
  case (Inr sim)
  show ?thesis
  proof (cases "float_gt sim (similarity_threshold self)")
    case True
    with Inr assms show ?thesis by (simp add: try_correct)
  next
    case False
    show ?thesis
    proof (cases "get_enhanced_context q db")
      case (Inl e')
      with Inr False show ?thesis by (simp add: try_context_fails)
    next
      case ctx: (Inr ctx)
      with Inr False assms show ?thesis
        by (auto simp add: try_incorrect generate_llm_response_def Let_def split: sum.splits)
    qed
  qed
qed

text \<open>
  C5. Whenever an exception leaves the body of the \<^verbatim>\<open>try\<close>, \<open>generate_response\<close> returns
  the fallback message, which contains "encountered an issue processing your answer", logs
  the exception, and the progress record is as before the call. The exceptions that leave
  the body are those of the similarity computation, of retrieval and of prompt formatting.
\<close>

theorem unexpected_error_gives_fallback:
  "(returned (generate_response_try self lib q db ca ua p) = Inl e \<longrightarrow>
      returned (generate_response self lib q db ca ua p) = fallback_message \<and>
      state (generate_response self lib q db ca ua p) = p \<and>
      logged (generate_response self lib q db ca ua p) =
        [''Error in generate_response: '' @ str_exn e]) \<and>
   sublist ''encountered an issue processing your answer'' fallback_message \<and>
   (calculate_similarity self lib ca ua = Inl e \<longrightarrow>
      returned (generate_response_try self lib q db ca ua p) = Inl e) \<and>
   (calculate_similarity self lib ca ua = Inr sim \<and>
    \<not> float_gt sim (similarity_threshold self) \<and>
    get_enhanced_context q db = Inl e \<longrightarrow>
      returned (generate_response_try self lib q db ca ua p) = Inl e) \<and>
   (calculate_similarity self lib ca ua = Inr sim \<and>
    \<not> float_gt sim (similarity_threshold self) \<and>
    get_enhanced_context q db = Inr ctx \<and>
    format_prompt lib (get_dynamic_prompt_template p)
      \<lparr>context_arg = ctx, question_arg = q, user_answer_arg = ua, attempts_arg = attempts p,
       previous_hints_arg = join '', '' (hints_given p)\<rparr> = Inl e \<longrightarrow>
      returned (generate_response_try self lib q db ca ua p) = Inl e)"
proof -
  have caught: "returned (generate_response_try self lib q db ca ua p) = Inl e \<longrightarrow>
      returned (generate_response self lib q db ca ua p) = fallback_message \<and>
      state (generate_response self lib q db ca ua p) = p \<and>
      logged (generate_response self lib q db ca ua p) =
        [''Error in generate_response: '' @ str_exn e]"
  proof
    assume r: "returned (generate_response_try self lib q db ca ua p) = Inl e"
    from try_raises_state [OF r] r
    show "returned (generate_response self lib q db ca ua p) = fallback_message \<and>
      state (generate_response self lib q db ca ua p) = p \<and>
      logged (generate_response self lib q db ca ua p) =
        [''Error in generate_response: '' @ str_exn e]"
      by (simp add: generate_response_def on_exception_def Let_def)
  qed
  have phrase: "sublist ''encountered an issue processing your answer'' fallback_message"
  proof -
    have eq: "fallback_message = ''I '' @ ''encountered an issue processing your answer''
             @ ''. Please try again.''"
      by (simp add: fallback_message_def)
    show ?thesis by (subst eq) (rule sublist_appendI)
  qed
  have s1: "calculate_similarity self lib ca ua = Inl e \<longrightarrow>
      returned (generate_response_try self lib q db ca ua p) = Inl e"
    by (simp add: try_similarity_fails)
  have s2: "calculate_similarity self lib ca ua = Inr sim \<and>
    \<not> float_gt sim (similarity_threshold self) \<and>
    get_enhanced_context q db = Inl e \<longrightarrow>
      returned (generate_response_try self lib q db ca ua p) = Inl e"
    by (simp add: try_context_fails)
  have s3: "calculate_similarity self lib ca ua = Inr sim \<and>
    \<not> float_gt sim (similarity_threshold self) \<and>
    get_enhanced_context q db = Inr ctx \<and>
    format_prompt lib (get_dynamic_prompt_template p)
      \<lparr>context_arg = ctx, question_arg = q, user_answer_arg = ua, attempts_arg = attempts p,
       previous_hints_arg = join '', '' (hints_given p)\<rparr> = Inl e \<longrightarrow>
      returned (generate_response_try self lib q db ca ua p) = Inl e"
    by (simp add: try_incorrect llm_response_format_fails Let_def)
  from caught phrase s1 s2 s3 show ?thesis by (simp only: simp_thms)
qed

lemma offline_similarity:
  "calculate_similarity offline_generator lib ca ua = Inl (Exception ''connection refused'')"
  by (simp add: calculate_similarity_def offline_generator_def ResponseGenerator_init_def)

lemma broken_context: "get_enhanced_context q broken_db = Inl (Exception ''collection not found'')"
  by (simp add: get_enhanced_context_def broken_db_def)

lemma strict_similarity:
  "calculate_similarity (sample_generator a) (strict_library sim) ca ua = Inr sim"
  by (simp add: calculate_similarity_def sample_generator_def strict_library_def
      ResponseGenerator_init_def)

lemma strict_format_prompt:
  "format_prompt (strict_library sim) t args = Inl (Exception ''missing variable'')"
  by (simp add: strict_library_def)

text \<open>
  Three calls that end in the handler: embedding fails, retrieval fails, formatting fails.
\<close>

theorem unexpected_error_gives_fallback_witness:
  "calculate_similarity offline_generator (sample_library (Finite (9/10)))
      ''Plants turn light into sugar.'' ''Plants eat soil.''
     = Inl (Exception ''connection refused'') \<and>
   returned (generate_response offline_generator (sample_library (Finite (9/10)))
      ''What is photosynthesis?'' sample_db ''Plants turn light into sugar.'' ''Plants eat soil.''
      (sample_progress False 1 [''Look at the leaves.''])) = fallback_message \<and>
   state (generate_response offline_generator (sample_library (Finite (9/10)))
      ''What is photosynthesis?'' sample_db ''Plants turn light into sugar.'' ''Plants eat soil.''
      (sample_progress False 1 [''Look at the leaves.'']))
     = sample_progress False 1 [''Look at the leaves.''] \<and>
   get_enhanced_context ''What is photosynthesis?'' broken_db
     = Inl (Exception ''collection not found'') \<and>
   returned (generate_response (sample_generator (Inr ''Think about light.''))
      (sample_library (Finite (1/2)))
      ''What is photosynthesis?'' broken_db ''Plants turn light into sugar.'' ''Plants eat soil.''
      (sample_progress False 1 [''Look at the leaves.''])) = fallback_message \<and>
   state (generate_response (sample_generator (Inr ''Think about light.''))
      (sample_library (Finite (1/2)))
      ''What is photosynthesis?'' broken_db ''Plants turn light into sugar.'' ''Plants eat soil.''
      (sample_progress False 1 [''Look at the leaves.'']))
     = sample_progress False 1 [''Look at the leaves.''] \<and>
   returned (generate_response (sample_generator (Inr ''Think about light.''))
      (strict_library (Finite (1/2)))
      ''What is photosynthesis?'' sample_db ''Plants turn light into sugar.'' ''Plants eat soil.''
      (sample_progress False 1 [''Look at the leaves.''])) = fallback_message \<and>
   state (generate_response (sample_generator (Inr ''Think about light.''))
      (strict_library (Finite (1/2)))
      ''What is photosynthesis?'' sample_db ''Plants turn light into sugar.'' ''Plants eat soil.''
      (sample_progress False 1 [''Look at the leaves.'']))
     = sample_progress False 1 [''Look at the leaves.'']"
proof -
  let ?g = "sample_generator (Inr ''Think about light.'')"
  let ?l = "sample_library (Finite (1/2))"
  let ?p = "sample_progress False 1 [''Look at the leaves.'']"
  let ?q = "''What is photosynthesis?''"
  let ?ca = "''Plants turn light into sugar.''"
  let ?ua = "''Plants eat soil.''"
  let ?ctx = "''Plants absorb light.\<newline>Chlorophyll is green.\<newline>Water is split.''"
  have a1: "calculate_similarity offline_generator (sample_library (Finite (9/10))) ?ca ?ua
              = Inl (Exception ''connection refused'')"
    by (rule offline_similarity)
  have a: "returned (generate_response offline_generator (sample_library (Finite (9/10)))
              ?q sample_db ?ca ?ua ?p) = fallback_message \<and>
           state (generate_response offline_generator (sample_library (Finite (9/10)))
              ?q sample_db ?ca ?ua ?p) = ?p"
    using unexpected_error_gives_fallback [of offline_generator "sample_library (Finite (9/10))"
        ?q sample_db ?ca ?ua ?p "Exception ''connection refused''"] a1
    by blast
  have b1: "calculate_similarity ?g ?l ?ca ?ua = Inr (Finite (1/2))"
    by (rule sample_similarity)
  have b2: "\<not> float_gt (Finite (1/2)) (similarity_threshold ?g)"
    by (simp only: sample_threshold half_below not_False_eq_True)
  have b3: "get_enhanced_context ?q broken_db = Inl (Exception ''collection not found'')"
    by (rule broken_context)
  have b: "returned (generate_response ?g ?l ?q broken_db ?ca ?ua ?p) = fallback_message \<and>
           state (generate_response ?g ?l ?q broken_db ?ca ?ua ?p) = ?p"
    using unexpected_error_gives_fallback [of ?g ?l ?q broken_db ?ca ?ua ?p
        "Exception ''collection not found''" "Finite (1/2)"] b1 b2 b3
    by blast
  have c1: "calculate_similarity ?g (strict_library (Finite (1/2))) ?ca ?ua = Inr (Finite (1/2))"
    by (rule strict_similarity)
  have c3: "get_enhanced_context ?q sample_db = Inr ?ctx"
    by (rule sample_context)
  have c4: "format_prompt (strict_library (Finite (1/2))) (get_dynamic_prompt_template ?p)
      \<lparr>context_arg = ?ctx, question_arg = ?q, user_answer_arg = ?ua, attempts_arg = attempts ?p,
       previous_hints_arg = join '', '' (hints_given ?p)\<rparr> = Inl (Exception ''missing variable'')"
    by (rule strict_format_prompt)
  have c: "returned (generate_response ?g (strict_library (Finite (1/2))) ?q sample_db ?ca ?ua ?p)
             = fallback_message \<and>
           state (generate_response ?g (strict_library (Finite (1/2))) ?q sample_db ?ca ?ua ?p) = ?p"
    using unexpected_error_gives_fallback [of ?g "strict_library (Finite (1/2))" ?q sample_db
        ?ca ?ua ?p "Exception ''missing variable''" "Finite (1/2)" ?ctx] c1 b2 c3 c4
    by blast
  from a1 a b3 b c show ?thesis by (simp only: simp_thms)
qed

subsection \<open>The list of hints over a session\<close>

lemma hint_of_turn_state:
  assumes "hint_of_turn t p = Some h"
  shows "state (play_turn t p) = (record_hint h p)\<lparr>attempts := attempts p + 1\<rparr>"
proof -
  from assms obtain sim where
    sim: "calculate_similarity (generator t) (libs t) (correct_answer_of t) (user_answer_of t) = Inr sim"
    by (auto simp add: hint_of_turn_def split: sum.splits)
  from assms sim have below: "\<not> float_gt sim (similarity_threshold (generator t))"
    by (auto simp add: hint_of_turn_def split: if_splits)
  from assms sim below obtain ctx where
    ctx: "get_enhanced_context (question_of t) (vector_db_of t) = Inr ctx"
    by (auto simp add: hint_of_turn_def split: sum.splits)
  from assms sim below ctx obtain msgs where
    fmt: "format_prompt (libs t) (get_dynamic_prompt_template p)
            \<lparr>context_arg = ctx, question_arg = question_of t, user_answer_arg = user_answer_of t,
             attempts_arg = attempts p,
             previous_hints_arg = join '', '' (hints_given p)\<rparr> = Inr msgs"
    by (auto simp add: hint_of_turn_def split: sum.splits)
  from assms sim below ctx fmt obtain reply where
    ans: "llm (generator t) msgs = Inr reply" and h: "strip (libs t) reply = h"
    by (auto simp add: hint_of_turn_def split: sum.splits)
  show ?thesis
    using sim below ctx fmt ans h
    by (simp add: play_turn_def generate_response_def try_incorrect llm_response_hint Let_def
        record_hint_fields)
qed

lemma hint_of_turn_hints:
  "hint_of_turn t p = Some h \<Longrightarrow>
   hints_given (state (play_turn t p)) =
     (if h \<in> set (hints_given p) then hints_given p else hints_given p @ [h])"
  by (simp add: hint_of_turn_state record_hint_def)

lemma hint_of_turn_attempts:
  "hint_of_turn t p = Some h \<Longrightarrow> attempts (state (play_turn t p)) = attempts p + 1"
  by (simp add: hint_of_turn_state)

lemma play_distinct_hints:
  "hints_of_session ts p = map Some hs \<Longrightarrow> distinct hs \<Longrightarrow>
   set hs \<inter> set (hints_given p) = {} \<Longrightarrow>
   hints_given (play ts p) = hints_given p @ hs \<and>
   attempts (play ts p) = attempts p + int (length hs)"
proof (induction ts arbitrary: p hs)
  case Nil
  then show ?case by simp
next
  case (Cons t ts)
  from Cons.prems(1) obtain h hs' where hs: "hs = h # hs'"
    and ht: "hint_of_turn t p = Some h"
    and rest: "hints_of_session ts (state (play_turn t p)) = map Some hs'"
    by (cases hs) auto
  let ?p' = "state (play_turn t p)"
  from Cons.prems hs have new: "h \<notin> set (hints_given p)" by auto
  with ht have hg: "hints_given ?p' = hints_given p @ [h]"
    by (simp add: hint_of_turn_hints)
  from ht have at: "attempts ?p' = attempts p + 1"
    by (rule hint_of_turn_attempts)
  from Cons.prems hs hg have "distinct hs'" "set hs' \<inter> set (hints_given ?p') = {}"
    by auto
  from Cons.IH [OF rest this] hg at hs show ?case by simp
qed

text \<open>
  C7. A turn that generates the hint \<open>h\<close> counts one attempt and leaves \<open>hints_given\<close>
  as it was when \<open>h\<close> is already in it, and with \<open>h\<close> added at the end otherwise: the old
  list is a prefix of the new one, and a list without duplicates stays so. Two turns in a
  row with the same hint leave the same list as the first of them alone, with two attempts
  counted. A session of N turns that generate N different hints, begun with no attempts
  and no hints, ends with \<open>attempts = N\<close> and with exactly these hints, in the order they
  were given.
\<close>

theorem hints_append_only_without_duplicates:
  "(hint_of_turn t p = Some h \<longrightarrow>
      attempts (state (play_turn t p)) = attempts p + 1 \<and>
      hints_given (state (play_turn t p)) =
        (if h \<in> set (hints_given p) then hints_given p else hints_given p @ [h]) \<and>
      prefix (hints_given p) (hints_given (state (play_turn t p))) \<and>
      (distinct (hints_given p) \<longrightarrow> distinct (hints_given (state (play_turn t p))))) \<and>
   (hint_of_turn t p = Some h \<and> h \<in> set (hints_given p) \<longrightarrow>
      attempts (state (play_turn t p)) = attempts p + 1 \<and>
      hints_given (state (play_turn t p)) = hints_given p) \<and>
   (hints_of_session [t, t'] p = [Some h, Some h] \<longrightarrow>
      hints_given (play [t, t'] p) = hints_given (play [t] p) \<and>
      attempts (play [t, t'] p) = attempts p + 2) \<and>
   (hints_of_session ts p = map Some hs \<and> distinct hs \<and>
    attempts p = 0 \<and> hints_given p = [] \<longrightarrow>
      attempts (play ts p) = int (length hs) \<and>
      length (hints_given (play ts p)) = length hs \<and>
      hints_given (play ts p) = hs)"
proof -
  have one: "hint_of_turn t p = Some h \<longrightarrow>
      attempts (state (play_turn t p)) = attempts p + 1 \<and>
      hints_given (state (play_turn t p)) =
        (if h \<in> set (hints_given p) then hints_given p else hints_given p @ [h]) \<and>
      prefix (hints_given p) (hints_given (state (play_turn t p))) \<and>
      (distinct (hints_given p) \<longrightarrow> distinct (hints_given (state (play_turn t p))))"
  proof
    assume ht: "hint_of_turn t p = Some h"
    from hint_of_turn_hints [OF ht] hint_of_turn_attempts [OF ht]
    show "attempts (state (play_turn t p)) = attempts p + 1 \<and>
      hints_given (state (play_turn t p)) =
        (if h \<in> set (hints_given p) then hints_given p else hints_given p @ [h]) \<and>
      prefix (hints_given p) (hints_given (state (play_turn t p))) \<and>
      (distinct (hints_given p) \<longrightarrow> distinct (hints_given (state (play_turn t p))))"
      by simp
  qed
  have again: "hint_of_turn t p = Some h \<and> h \<in> set (hints_given p) \<longrightarrow>
      attempts (state (play_turn t p)) = attempts p + 1 \<and>
      hints_given (state (play_turn t p)) = hints_given p"
  proof
    assume a: "hint_of_turn t p = Some h \<and> h \<in> set (hints_given p)"
    then have ht: "hint_of_turn t p = Some h" and m: "h \<in> set (hints_given p)" by simp_all
    from hint_of_turn_hints [OF ht] hint_of_turn_attempts [OF ht] m
    show "attempts (state (play_turn t p)) = attempts p + 1 \<and>
      hints_given (state (play_turn t p)) = hints_given p"
      by simp
  qed
  have twice: "hints_of_session [t, t'] p = [Some h, Some h] \<longrightarrow>
      hints_given (play [t, t'] p) = hints_given (play [t] p) \<and>
      attempts (play [t, t'] p) = attempts p + 2"
  proof
    assume a: "hints_of_session [t, t'] p = [Some h, Some h]"
    let ?p' = "state (play_turn t p)"
    from a have ht: "hint_of_turn t p = Some h" and ht': "hint_of_turn t' ?p' = Some h"
      by simp_all
    from hint_of_turn_hints [OF ht] have m: "h \<in> set (hints_given ?p')"
      by (simp split: if_splits)
    from hint_of_turn_hints [OF ht'] m
    have "hints_given (state (play_turn t' ?p')) = hints_given ?p'"
      by simp
    moreover from hint_of_turn_attempts [OF ht'] hint_of_turn_attempts [OF ht]
    have "attempts (state (play_turn t' ?p')) = attempts p + 2"
      by simp
    ultimately show "hints_given (play [t, t'] p) = hints_given (play [t] p) \<and>
      attempts (play [t, t'] p) = attempts p + 2"
      by simp
  qed
  have many: "hints_of_session ts p = map Some hs \<and> distinct hs \<and>
      attempts p = 0 \<and> hints_given p = [] \<longrightarrow>
      attempts (play ts p) = int (length hs) \<and>
      length (hints_given (play ts p)) = length hs \<and>
      hints_given (play ts p) = hs"
  proof
    assume a: "hints_of_session ts p = map Some hs \<and> distinct hs \<and>
      attempts p = 0 \<and> hints_given p = []"
    then have "set hs \<inter> set (hints_given p) = {}" by simp
    with a play_distinct_hints [of ts p hs]
    show "attempts (play ts p) = int (length hs) \<and>
      length (hints_given (play ts p)) = length hs \<and>
      hints_given (play ts p) = hs"
      by simp
  qed
  from one again twice many show ?thesis by (simp only: simp_thms)
qed

lemma sample_hint_of_turn:
  "\<not> float_gt sim threshold_literal \<Longrightarrow>
   hint_of_turn (sample_turn sim (Inr reply)) p = Some (strip_blanks reply)"
  by (simp add: hint_of_turn_def sample_turn_def sample_similarity sample_threshold sample_context
      sample_format_prompt sample_llm sample_strip)

lemma strip_blanks_water: "strip_blanks '' Think about water.'' = ''Think about water.''"
  by (simp add: strip_blanks_def)

lemma strip_blanks_sugar: "strip_blanks ''Think about sugar.  '' = ''Think about sugar.''"
  by (simp add: strip_blanks_def)

text \<open>
  Three turns with three hints; the same hint twice; a hint that is already recorded.
\<close>

theorem hints_append_only_without_duplicates_witness:
  "hint_of_turn (sample_turn (Finite (1/2)) (Inr ''  Think about light. ''))
      (sample_progress False 1 [''Think about light.'']) = Some ''Think about light.'' \<and>
   distinct [''Think about light.'', ''Think about water.'', ''Think about sugar.''] \<and>
   attempts (play [sample_turn (Finite (1/2)) (Inr ''  Think about light. ''),
                   sample_turn (Finite (1/2)) (Inr '' Think about water.''),
                   sample_turn (Finite (1/2)) (Inr ''Think about sugar.  '')]
              (sample_progress False 0 [])) = 3 \<and>
   hints_given (play [sample_turn (Finite (1/2)) (Inr ''  Think about light. ''),
                      sample_turn (Finite (1/2)) (Inr '' Think about water.''),
                      sample_turn (Finite (1/2)) (Inr ''Think about sugar.  '')]
                 (sample_progress False 0 []))
     = [''Think about light.'', ''Think about water.'', ''Think about sugar.''] \<and>
   hints_given (play [sample_turn (Finite (1/2)) (Inr ''  Think about light. ''),
                      sample_turn (Finite (1/2)) (Inr ''  Think about light. '')]
                 (sample_progress False 0 []))
     = hints_given (play [sample_turn (Finite (1/2)) (Inr ''  Think about light. '')]
                 (sample_progress False 0 [])) \<and>
   attempts (play [sample_turn (Finite (1/2)) (Inr ''  Think about light. ''),
                   sample_turn (Finite (1/2)) (Inr ''  Think about light. '')]
              (sample_progress False 0 [])) = 2 \<and>
   hints_given (state (play_turn (sample_turn (Finite (1/2)) (Inr ''  Think about light. ''))
                 (sample_progress False 1 [''Think about light.''])))
     = [''Think about light.''] \<and>
   attempts (state (play_turn (sample_turn (Finite (1/2)) (Inr ''  Think about light. ''))
                 (sample_progress False 1 [''Think about light.'']))) = 2"
proof -
  let ?t1 = "sample_turn (Finite (1/2)) (Inr ''  Think about light. '')"
  let ?t2 = "sample_turn (Finite (1/2)) (Inr '' Think about water.'')"
  let ?t3 = "sample_turn (Finite (1/2)) (Inr ''Think about sugar.  '')"
  let ?h1 = "''Think about light.''"
  let ?h2 = "''Think about water.''"
  let ?h3 = "''Think about sugar.''"
  let ?p0 = "sample_progress False 0 []"
  let ?p1 = "sample_progress False 1 [?h1]"
  have t1: "hint_of_turn ?t1 p = Some ?h1" for p
    using sample_hint_of_turn [OF half_below, of "''  Think about light. ''" p]
    by (simp only: strip_blanks_example)
  have t2: "hint_of_turn ?t2 p = Some ?h2" for p
    using sample_hint_of_turn [OF half_below, of "'' Think about water.''" p]
    by (simp only: strip_blanks_water)
  have t3: "hint_of_turn ?t3 p = Some ?h3" for p
    using sample_hint_of_turn [OF half_below, of "''Think about sugar.  ''" p]
    by (simp only: strip_blanks_sugar)
  have all: "hints_of_session [?t1, ?t2, ?t3] ?p0 = map Some [?h1, ?h2, ?h3]"
    by (simp add: t1 t2 t3)
  have two: "hints_of_session [?t1, ?t1] ?p0 = [Some ?h1, Some ?h1]"
    by (simp add: t1)
  have d: "distinct [?h1, ?h2, ?h3]"
    by simp
  have p0: "attempts ?p0 = 0" "hints_given ?p0 = []"
    by (simp_all add: sample_progress_def)
  have p1: "attempts ?p1 = 1" "hints_given ?p1 = [?h1]" "?h1 \<in> set (hints_given ?p1)"
    "distinct (hints_given ?p1)"
    by (simp_all add: sample_progress_def)
  note A = hints_append_only_without_duplicates
             [of ?t1 ?p0 ?h1 ?t1 "[?t1, ?t2, ?t3]" "[?h1, ?h2, ?h3]"]
  note B = hints_append_only_without_duplicates
             [of ?t1 ?p1 ?h1 ?t1 "[?t1, ?t2, ?t3]" "[?h1, ?h2, ?h3]"]
  from A all d p0 have many: "attempts (play [?t1, ?t2, ?t3] ?p0) = int (length [?h1, ?h2, ?h3]) \<and>
      hints_given (play [?t1, ?t2, ?t3] ?p0) = [?h1, ?h2, ?h3]"
    by blast
  from A two have twice: "hints_given (play [?t1, ?t1] ?p0) = hints_given (play [?t1] ?p0) \<and>
      attempts (play [?t1, ?t1] ?p0) = attempts ?p0 + 2"
    by blast
  from B t1 [of ?p1] p1(3) have again: "attempts (state (play_turn ?t1 ?p1)) = attempts ?p1 + 1 \<and>
      hints_given (state (play_turn ?t1 ?p1)) = hints_given ?p1"
    by blast
  from B t1 [of ?p1] p1(4) have "distinct (hints_given (state (play_turn ?t1 ?p1)))"
    by blast
  from t1 [of ?p1] d many twice again p0 p1 show ?thesis
    by simp
qed

subsection \<open>The prompt template\<close>

lemma templates_distinct:
  "distinct [first_attempt_template, progress_template, struggling_template]"
  by (simp add: first_attempt_template_def progress_template_def struggling_template_def)

lemma incorrect_path_attempts:
  assumes "calculate_similarity self lib ca ua = Inr sim"
    and "\<not> float_gt sim (similarity_threshold self)"
    and "get_enhanced_context q db = Inr ctx"
    and "format_prompt lib (get_dynamic_prompt_template p)
           \<lparr>context_arg = ctx, question_arg = q, user_answer_arg = ua,
            attempts_arg = attempts p,
            previous_hints_arg = join '', '' (hints_given p)\<rparr> = Inr msgs"
  shows "attempts (state (generate_response self lib q db ca ua p)) = attempts p + 1"
proof (cases "llm self msgs")
  case (Inl e)
  with assms show ?thesis
    by (simp add: generate_response_def try_incorrect llm_response_llm_fails Let_def)
next
  case (Inr reply)
  with assms show ?thesis
    by (simp add: generate_response_def try_incorrect llm_response_hint Let_def record_hint_fields)
qed

lemma template_step:
  assumes "0 \<le> attempts p" and "attempts p' = attempts p + 1"
  shows "(get_dynamic_prompt_template p' \<noteq> get_dynamic_prompt_template p
            \<longleftrightarrow> attempts p = 0 \<or> attempts p = 2) \<and>
         (attempts p = 0 \<longrightarrow> get_dynamic_prompt_template p' = progress_template) \<and>
         (attempts p = 2 \<longrightarrow> get_dynamic_prompt_template p' = struggling_template)"
  using assms templates_distinct
  by (auto simp add: get_dynamic_prompt_template_def)

text \<open>
  C8. \<open>get_dynamic_prompt_template\<close> has three tiers: \<open>attempts = 0\<close> gives the
  first-attempt template, \<open>1 \<le> attempts \<le> 2\<close> the template with more specific hints,
  \<open>attempts \<ge> 3\<close> the step-by-step template, and the three templates differ. On the
  incorrect-answer path the template handed to \<open>generate_llm_response\<close> is the one of the
  record as the call received it; the attempt is counted afterwards. Hence, for a
  non-negative count, the template of the next call differs from the one of this call
  exactly when \<open>attempts\<close> goes from 0 to 1 or from 2 to 3.
\<close>

theorem template_selected_before_increment:
  "(attempts p = 0 \<longrightarrow> get_dynamic_prompt_template p = first_attempt_template) \<and>
   (1 \<le> attempts p \<and> attempts p \<le> 2 \<longrightarrow> get_dynamic_prompt_template p = progress_template) \<and>
   (3 \<le> attempts p \<longrightarrow> get_dynamic_prompt_template p = struggling_template) \<and>
   distinct [first_attempt_template, progress_template, struggling_template] \<and>
   (calculate_similarity self lib ca ua = Inr sim \<and>
    \<not> float_gt sim (similarity_threshold self) \<and>
    get_enhanced_context q db = Inr ctx \<longrightarrow>
      generate_response_try self lib q db ca ua p =
        (let r = generate_llm_response self lib (get_dynamic_prompt_template p) ctx q ua ca p
         in case returned r of
              Inl e \<Rightarrow> r
            | Inr response \<Rightarrow>
                \<lparr>returned = Inr response,
                 state = (state r)\<lparr>attempts := attempts (state r) + 1\<rparr>,
                 logged = logged r\<rparr>)) \<and>
   (calculate_similarity self lib ca ua = Inr sim \<and>
    \<not> float_gt sim (similarity_threshold self) \<and>
    get_enhanced_context q db = Inr ctx \<and>
    format_prompt lib (get_dynamic_prompt_template p)
      \<lparr>context_arg = ctx, question_arg = q, user_answer_arg = ua, attempts_arg = attempts p,
       previous_hints_arg = join '', '' (hints_given p)\<rparr> = Inr msgs \<and>
    0 \<le> attempts p \<longrightarrow>
      (get_dynamic_prompt_template (state (generate_response self lib q db ca ua p))
         \<noteq> get_dynamic_prompt_template p
       \<longleftrightarrow> attempts p = 0 \<or> attempts p = 2) \<and>
      (attempts p = 0 \<longrightarrow>
         get_dynamic_prompt_template (state (generate_response self lib q db ca ua p))
           = progress_template) \<and>
      (attempts p = 2 \<longrightarrow>
         get_dynamic_prompt_template (state (generate_response self lib q db ca ua p))
           = struggling_template))"
proof -
  have tiers:
    "attempts p = 0 \<longrightarrow> get_dynamic_prompt_template p = first_attempt_template"
    "1 \<le> attempts p \<and> attempts p \<le> 2 \<longrightarrow> get_dynamic_prompt_template p = progress_template"
    "3 \<le> attempts p \<longrightarrow> get_dynamic_prompt_template p = struggling_template"
    by (simp_all add: get_dynamic_prompt_template_def)
  have passed: "calculate_similarity self lib ca ua = Inr sim \<and>
    \<not> float_gt sim (similarity_threshold self) \<and>
    get_enhanced_context q db = Inr ctx \<longrightarrow>
      generate_response_try self lib q db ca ua p =
        (let r = generate_llm_response self lib (get_dynamic_prompt_template p) ctx q ua ca p
         in case returned r of
              Inl e \<Rightarrow> r
            | Inr response \<Rightarrow>
                \<lparr>returned = Inr response,
                 state = (state r)\<lparr>attempts := attempts (state r) + 1\<rparr>,
                 logged = logged r\<rparr>)"
    using try_incorrect [of self lib ca ua sim q db ctx p] by blast
  have step: "calculate_similarity self lib ca ua = Inr sim \<and>
    \<not> float_gt sim (similarity_threshold self) \<and>
    get_enhanced_context q db = Inr ctx \<and>
    format_prompt lib (get_dynamic_prompt_template p)
      \<lparr>context_arg = ctx, question_arg = q, user_answer_arg = ua, attempts_arg = attempts p,
       previous_hints_arg = join '', '' (hints_given p)\<rparr> = Inr msgs \<and>
    0 \<le> attempts p \<longrightarrow>
      (get_dynamic_prompt_template (state (generate_response self lib q db ca ua p))
         \<noteq> get_dynamic_prompt_template p
       \<longleftrightarrow> attempts p = 0 \<or> attempts p = 2) \<and>
      (attempts p = 0 \<longrightarrow>
         get_dynamic_prompt_template (state (generate_response self lib q db ca ua p))
           = progress_template) \<and>
      (attempts p = 2 \<longrightarrow>
         get_dynamic_prompt_template (state (generate_response self lib q db ca ua p))
           = struggling_template)"
  proof
    assume a: "calculate_similarity self lib ca ua = Inr sim \<and>
      \<not> float_gt sim (similarity_threshold self) \<and>
      get_enhanced_context q db = Inr ctx \<and>
      format_prompt lib (get_dynamic_prompt_template p)
        \<lparr>context_arg = ctx, question_arg = q, user_answer_arg = ua, attempts_arg = attempts p,
         previous_hints_arg = join '', '' (hints_given p)\<rparr> = Inr msgs \<and>
      0 \<le> attempts p"
    then have "attempts (state (generate_response self lib q db ca ua p)) = attempts p + 1"
      using incorrect_path_attempts [of self lib ca ua sim q db ctx p msgs] by blast
    with a show "(get_dynamic_prompt_template (state (generate_response self lib q db ca ua p))
         \<noteq> get_dynamic_prompt_template p
       \<longleftrightarrow> attempts p = 0 \<or> attempts p = 2) \<and>
      (attempts p = 0 \<longrightarrow>
         get_dynamic_prompt_template (state (generate_response self lib q db ca ua p))
           = progress_template) \<and>
      (attempts p = 2 \<longrightarrow>
         get_dynamic_prompt_template (state (generate_response self lib q db ca ua p))
           = struggling_template)"
      using template_step [of p "state (generate_response self lib q db ca ua p)"] by blast
  qed
  from tiers templates_distinct passed step show ?thesis by (simp only: simp_thms)
qed


text \<open>The three tiers, and the two calls after which the tier changes.\<close>

theorem template_selected_before_increment_witness:
  "get_dynamic_prompt_template (sample_progress False 0 []) = first_attempt_template \<and>
   get_dynamic_prompt_template (state (generate_response (sample_generator (Inr ''Think about light.''))
      (sample_library (Finite (1/2))) ''What is photosynthesis?'' sample_db
      ''Plants turn light into sugar.'' ''Plants eat soil.'' (sample_progress False 0 [])))
     = progress_template \<and>
   get_dynamic_prompt_template (sample_progress False 2 []) = progress_template \<and>
   get_dynamic_prompt_template (state (generate_response (sample_generator (Inr ''Think about light.''))
      (sample_library (Finite (1/2))) ''What is photosynthesis?'' sample_db
      ''Plants turn light into sugar.'' ''Plants eat soil.'' (sample_progress False 2 [])))
     = struggling_template \<and>
   get_dynamic_prompt_template (sample_progress False 3 []) = struggling_template \<and>
   first_attempt_template \<noteq> progress_template \<and> progress_template \<noteq> struggling_template"
proof -
  let ?g = "sample_generator (Inr ''Think about light.'')"
  let ?l = "sample_library (Finite (1/2))"
  let ?q = "''What is photosynthesis?''"
  let ?ca = "''Plants turn light into sugar.''"
  let ?ua = "''Plants eat soil.''"
  let ?ctx = "''Plants absorb light.\<newline>Chlorophyll is green.\<newline>Water is split.''"
  let ?p0 = "sample_progress False 0 []"
  let ?p2 = "sample_progress False 2 []"
  let ?p3 = "sample_progress False 3 []"
  have h1: "calculate_similarity ?g ?l ?ca ?ua = Inr (Finite (1/2))"
    by (rule sample_similarity)
  have h2: "\<not> float_gt (Finite (1/2)) (similarity_threshold ?g)"
    by (simp only: sample_threshold half_below not_False_eq_True)
  have h3: "get_enhanced_context ?q sample_db = Inr ?ctx"
    by (rule sample_context)
  have f0: "format_prompt ?l (get_dynamic_prompt_template ?p0)
      \<lparr>context_arg = ?ctx, question_arg = ?q, user_answer_arg = ?ua, attempts_arg = attempts ?p0,
       previous_hints_arg = join '', '' (hints_given ?p0)\<rparr>
      = Inr [get_dynamic_prompt_template ?p0, ?ctx, ?q, ?ua, join '', '' (hints_given ?p0)]"
    by (simp add: sample_format_prompt)
  have f2: "format_prompt ?l (get_dynamic_prompt_template ?p2)
      \<lparr>context_arg = ?ctx, question_arg = ?q, user_answer_arg = ?ua, attempts_arg = attempts ?p2,
       previous_hints_arg = join '', '' (hints_given ?p2)\<rparr>
      = Inr [get_dynamic_prompt_template ?p2, ?ctx, ?q, ?ua, join '', '' (hints_given ?p2)]"
    by (simp add: sample_format_prompt)
  have a0: "attempts ?p0 = 0" and a2: "attempts ?p2 = 2" and a3: "attempts ?p3 = 3"
    by (simp_all add: sample_progress_def)
  note T0 = template_selected_before_increment [of ?p0 ?g ?l ?ca ?ua "Finite (1/2)" ?q sample_db
      ?ctx "[get_dynamic_prompt_template ?p0, ?ctx, ?q, ?ua, join '', '' (hints_given ?p0)]"]
  note T2 = template_selected_before_increment [of ?p2 ?g ?l ?ca ?ua "Finite (1/2)" ?q sample_db
      ?ctx "[get_dynamic_prompt_template ?p2, ?ctx, ?q, ?ua, join '', '' (hints_given ?p2)]"]
  note T3 = template_selected_before_increment [of ?p3 ?g ?l ?ca ?ua "Finite (1/2)" ?q sample_db
      ?ctx "[]"]
  from T0 a0 have r0: "get_dynamic_prompt_template ?p0 = first_attempt_template"
    by blast
  have n0: "0 \<le> attempts ?p0" and n2: "0 \<le> attempts ?p2" and b2: "1 \<le> attempts ?p2 \<and> attempts ?p2 \<le> 2"
    and b3: "3 \<le> attempts ?p3"
    by (simp_all add: a0 a2 a3)
  from T0 h1 h2 h3 f0 n0 a0
  have s0: "get_dynamic_prompt_template (state (generate_response ?g ?l ?q sample_db ?ca ?ua ?p0))
              = progress_template"
    by blast
  from T2 b2 have r2: "get_dynamic_prompt_template ?p2 = progress_template"
    by blast
  from T2 h1 h2 h3 f2 n2 a2
  have s2: "get_dynamic_prompt_template (state (generate_response ?g ?l ?q sample_db ?ca ?ua ?p2))
              = struggling_template"
    by blast
  from T3 b3 have r3: "get_dynamic_prompt_template ?p3 = struggling_template"
    by blast
  from T0 have "distinct [first_attempt_template, progress_template, struggling_template]"
    by blast
  then have d: "first_attempt_template \<noteq> progress_template \<and> progress_template \<noteq> struggling_template"
    by simp
  from r0 s0 r2 s2 r3 d show ?thesis by (simp only: simp_thms)
qed

subsection \<open>The encouragement line\<close>

text \<open>
  C9. \<open>get_encouragement\<close> is defined on every attempt count: 0, 1, 2, 3 and 4 have each
  their own line ("Let's start exploring this together!", then lines with
  "making progress", "getting closer", "Don't give up" and "great effort"), and every
  count of 5 or more has the line "Keep persevering! Here's some guidance:". The six lines
  are pairwise different.
\<close>

theorem encouragement_by_attempts:
  "get_encouragement 0 = ''Let's start exploring this together!'' \<and>
   get_encouragement 1 = ''You're making progress! Keep thinking about it.'' \<and>
   get_encouragement 2 = ''You're getting closer! Consider these points:'' \<and>
   get_encouragement 3 = ''Don't give up! Here's a different way to think about it:'' \<and>
   get_encouragement 4 = ''You're putting in great effort! Let's break this down further:'' \<and>
   (\<forall>n. 5 \<le> n \<longrightarrow> get_encouragement n = ''Keep persevering! Here's some guidance:'') \<and>
   sublist ''making progress'' (get_encouragement 1) \<and>
   sublist ''getting closer'' (get_encouragement 2) \<and>
   sublist ''Don't give up'' (get_encouragement 3) \<and>
   sublist ''great effort'' (get_encouragement 4) \<and>
   distinct [get_encouragement 0, get_encouragement 1, get_encouragement 2,
             get_encouragement 3, get_encouragement 4, get_encouragement 5]"
proof -
  have e0: "get_encouragement 0 = ''Let's start exploring this together!''"
    and e1: "get_encouragement 1 = ''You're making progress! Keep thinking about it.''"
    and e2: "get_encouragement 2 = ''You're getting closer! Consider these points:''"
    and e3: "get_encouragement 3 = ''Don't give up! Here's a different way to think about it:''"
    and e4: "get_encouragement 4 = ''You're putting in great effort! Let's break this down further:''"
    by (simp_all add: get_encouragement_def encouragements_def)
  have e5: "\<forall>n. 5 \<le> n \<longrightarrow> get_encouragement n = ''Keep persevering! Here's some guidance:''"
    by (simp add: get_encouragement_def encouragements_def)
  have p1: "sublist ''making progress'' (get_encouragement 1)"
  proof -
    have "get_encouragement 1 = ''You're '' @ ''making progress'' @ ''! Keep thinking about it.''"
      by (simp add: e1)
    then show ?thesis by (simp only: sublist_appendI)
  qed
  have p2: "sublist ''getting closer'' (get_encouragement 2)"
  proof -
    have "get_encouragement 2 = ''You're '' @ ''getting closer'' @ ''! Consider these points:''"
      by (simp add: e2)
    then show ?thesis by (simp only: sublist_appendI)
  qed
  have p3: "sublist ''Don't give up'' (get_encouragement 3)"
  proof -
    have "get_encouragement 3 = [] @ ''Don't give up'' @ ''! Here's a different way to think about it:''"
      by (simp add: e3)
    then show ?thesis by (simp only: sublist_appendI)
  qed
  have p4: "sublist ''great effort'' (get_encouragement 4)"
  proof -
    have "get_encouragement 4 = ''You're putting in '' @ ''great effort'' @ ''! Let's break this down further:''"
      by (simp add: e4)
    then show ?thesis by (simp only: sublist_appendI)
  qed
  have g5: "get_encouragement 5 = ''Keep persevering! Here's some guidance:''"
    using e5 by simp
  have d: "distinct [get_encouragement 0, get_encouragement 1, get_encouragement 2,
             get_encouragement 3, get_encouragement 4, get_encouragement 5]"
    by (simp add: e0 e1 e2 e3 e4 g5)
  from e0 e1 e2 e3 e4 e5 p1 p2 p3 p4 d show ?thesis by (simp only: simp_thms)
qed

text \<open>The line for seven attempts.\<close>

theorem encouragement_by_attempts_witness:
  "(5::int) \<le> 7 \<and> get_encouragement 7 = ''Keep persevering! Here's some guidance:''"
proof -
  have "\<forall>n. 5 \<le> n \<longrightarrow> get_encouragement n = ''Keep persevering! Here's some guidance:''"
    using encouragement_by_attempts by blast
  then show ?thesis by simp
qed

subsection \<open>Construction\<close>

lemma new_default:
  "LearningProgress_default h =
     (\<lparr>completed_of = False, attempts_of = 0, hints_ref = Some (length h)\<rparr>, h @ [[]])"
  by (simp add: LearningProgress_default_def LearningProgress_init_def post_init_def new_list_def)

text \<open>
  C10. \<^verbatim>\<open>LearningProgress()\<close> gives \<open>completed = False\<close>, \<open>attempts = 0\<close> and an empty
  \<open>hints_given\<close>. After \<^verbatim>\<open>__post_init__\<close> the field is never \<^verbatim>\<open>None\<close>: a \<^verbatim>\<open>None\<close>
  argument is replaced by a list allocated in this call, a list argument is kept. Two
  instances built with the default hold different lists, whatever is allocated between
  the two constructions: appending to the list of one leaves the list of the other empty.
\<close>

theorem default_progress_is_fresh:
  "fields_of (snd (LearningProgress_default h)) (fst (LearningProgress_default h))
     = Some \<lparr>completed = False, attempts = 0, hints_given = []\<rparr> \<and>
   hints_ref (fst (LearningProgress_default h)) = Some (length h) \<and>
   hints_ref (fst (LearningProgress_init c a hs h)) \<noteq> None \<and>
   LearningProgress_init c a (Some r) h
     = (\<lparr>completed_of = c, attempts_of = a, hints_ref = Some r\<rparr>, h) \<and>
   hints_ref (fst (LearningProgress_default (snd (LearningProgress_default h) @ cells)))
     \<noteq> hints_ref (fst (LearningProgress_default h)) \<and>
   (case LearningProgress_default h of (p1, h1) \<Rightarrow>
      case LearningProgress_default h1 of (p2, h2) \<Rightarrow>
        hints_ref p1 \<noteq> hints_ref p2 \<and>
        fields_of h2 p1 = Some \<lparr>completed = False, attempts = 0, hints_given = []\<rparr> \<and>
        fields_of h2 p2 = Some \<lparr>completed = False, attempts = 0, hints_given = []\<rparr> \<and>
        fields_of (list_append (the (hints_ref p1)) x h2) p1
          = Some \<lparr>completed = False, attempts = 0, hints_given = [x]\<rparr> \<and>
        fields_of (list_append (the (hints_ref p1)) x h2) p2
          = Some \<lparr>completed = False, attempts = 0, hints_given = []\<rparr>)"
proof -
  have a: "fields_of (snd (LearningProgress_default h)) (fst (LearningProgress_default h))
     = Some \<lparr>completed = False, attempts = 0, hints_given = []\<rparr>"
    by (simp add: new_default fields_of_def)
  have b: "hints_ref (fst (LearningProgress_default h)) = Some (length h)"
    by (simp add: new_default)
  have c: "hints_ref (fst (LearningProgress_init c a hs h)) \<noteq> None"
    by (cases hs) (simp_all add: LearningProgress_init_def post_init_def new_list_def)
  have d: "LearningProgress_init c a (Some r) h
     = (\<lparr>completed_of = c, attempts_of = a, hints_ref = Some r\<rparr>, h)"
    by (simp add: LearningProgress_init_def post_init_def)
  have e: "(case LearningProgress_default h of (p1, h1) \<Rightarrow>
      case LearningProgress_default h1 of (p2, h2) \<Rightarrow>
        hints_ref p1 \<noteq> hints_ref p2 \<and>
        fields_of h2 p1 = Some \<lparr>completed = False, attempts = 0, hints_given = []\<rparr> \<and>
        fields_of h2 p2 = Some \<lparr>completed = False, attempts = 0, hints_given = []\<rparr> \<and>
        fields_of (list_append (the (hints_ref p1)) x h2) p1
          = Some \<lparr>completed = False, attempts = 0, hints_given = [x]\<rparr> \<and>
        fields_of (list_append (the (hints_ref p1)) x h2) p2
          = Some \<lparr>completed = False, attempts = 0, hints_given = []\<rparr>)"
    by (simp add: new_default fields_of_def list_append_def nth_append list_update_append)
  have f: "hints_ref (fst (LearningProgress_default (snd (LearningProgress_default h) @ cells)))
     \<noteq> hints_ref (fst (LearningProgress_default h))"
    by (simp add: new_default)
  from a b c d e f show ?thesis by (simp only: simp_thms)
qed



end
